theory Spec2Isabelle
  imports Main "HOL-Library.AList" "HOL-Library.Char_ord" "HOL-Library.List_Lexorder"
begin

section \<open>Conventions of the embedding\<close>

text \<open>
  The development embeds the rendezvous and signaling server (config.ts, db/index.ts,
  auth.ts, machines.ts, signaling.ts, server.ts) as HOL functions over an explicit state.

  \<^item> Wall-clock instants (JavaScript \<open>Date\<close>, SQL \<open>CURRENT_TIMESTAMP\<close>) are integers
    counting milliseconds; every entry point takes the instant \<open>now\<close> at which it runs.
  \<^item> An optional string field (\<open>userId?: string\<close>) is a \<open>string option\<close>; JavaScript
    truthiness of such a value is \<open>truthy\<close>: \<open>undefined\<close> and the empty string are falsy.
  \<^item> A \<open>ConnectedClient\<close> object (with the socket it owns) is a reference, a natural
    number, into \<open>heap\<close>; two tables holding the same reference alias the same object.
  \<^item> An exception is the value \<open>Threw\<close> (for a function with a result) or the outcome
    \<open>Thrown\<close> (for a handler); the state reached before the throw is kept.
  \<^item> A handler runs from its call to its return without another handler interleaving
    at its \<open>await\<close> points.
  \<^item> A frame that parses carries the payload shape types.ts declares for its \<open>type\<close>.
  \<^item> The web-client counter, a JavaScript number, is a natural number.
\<close>

definition truthy :: "string option \<Rightarrow> bool" where
  "truthy v = (case v of None \<Rightarrow> False | Some s \<Rightarrow> s \<noteq> [])"

text \<open>\<open>a || b\<close> on an optional string and a string.\<close>

definition or_else :: "string option \<Rightarrow> string \<Rightarrow> string" where
  "or_else v d = (case v of None \<Rightarrow> d | Some s \<Rightarrow> if s = [] then d else s)"

datatype 'a result = Ok 'a | Threw

datatype outcome = Returned | Thrown

subsection \<open>Decimal rendering of the web-client counter\<close>

definition digit_char :: "nat \<Rightarrow> char" where
  "digit_char d = char_of (48 + d)"

function string_of_nat :: "nat \<Rightarrow> string" where
  "string_of_nat n =
     (if n < 10 then [digit_char n] else string_of_nat (n div 10) @ [digit_char (n mod 10)])"
  by pat_completeness auto
termination
  by (relation "measure (\<lambda>n. n)") auto

declare string_of_nat.simps [simp del]

section \<open>types.ts: rows, views and frames\<close>

record DBUser =
  u_id :: string
  u_email :: string
  u_username :: string
  u_password_hash :: string
  u_created_at :: int
  u_updated_at :: int

record MachineCapabilities =
  hasGit :: bool
  hasNode :: bool
  hasRust :: bool
  hasPython :: bool

text \<open>
  A row of \<open>machines\<close>. \<open>Machine\<close> of types.ts is the same row with camel-case field
  names, so the row type stands for both.
\<close>

record DBMachine =
  m_id :: string
  m_user_id :: string
  m_name :: string
  m_platform :: string
  m_last_seen :: int
  m_is_online :: bool
  m_capabilities :: MachineCapabilities
  m_created_at :: int

record MachineInfo =
  mi_id :: string
  mi_name :: string
  mi_platform :: string
  mi_isOnline :: bool
  mi_lastSeen :: int
  mi_isOwn :: bool

record UserView =
  uv_id :: string
  uv_email :: string
  uv_username :: string
  uv_created_at :: int
  uv_updated_at :: int

record AuthResponse =
  success :: bool
  token :: "string option"
  user :: "UserView option"
  error :: "string option"

record JWTPayload =
  jwt_userId :: string
  jwt_email :: string

section \<open>db/index.ts: the store and \<open>query\<close>\<close>

text \<open>
  The store holds the two tables the server reads and writes (no statement of the
  server touches \<open>sessions\<close>). \<open>faults\<close> lists, for the queries still to come, whether the
  driver rejects them: \<open>query\<close> takes the head for each call and throws when it is
  \<open>True\<close>; an empty list means no further driver error. A statement the store rejects
  for a reason the tables below do not show (an identifier that is not a UUID, a lost
  connection) is such a fault. \<open>uuid_next\<close> counts the identifiers drawn so far from the
  generator of the environment. Columns the server always writes (\<open>is_online\<close>,
  \<open>last_seen\<close>) are taken without \<open>NULL\<close>.
\<close>

record DB =
  users :: "DBUser list"
  machines :: "DBMachine list"
  faults :: "bool list"
  uuid_next :: nat

text \<open>
  The libraries the server calls (jsonwebtoken, bcryptjs, uuid and the store's
  \<open>gen_random_uuid\<close>) are parameters.
\<close>

record Env =
  jwt_sign :: "string \<Rightarrow> string \<Rightarrow> string"
  jwt_verify :: "string \<Rightarrow> JWTPayload option"
  bcrypt_hash :: "string \<Rightarrow> string"
  bcrypt_compare :: "string \<Rightarrow> string \<Rightarrow> bool"
  uuid_gen :: "nat \<Rightarrow> string"
  uuidv4 :: "nat \<Rightarrow> string"

definition query :: "(DB \<Rightarrow> 'a result \<times> DB) \<Rightarrow> DB \<Rightarrow> 'a result \<times> DB" where
  "query stmt d =
     (case faults d of
        [] \<Rightarrow> stmt d
      | b # bs \<Rightarrow> if b then (Threw, d\<lparr>faults := bs\<rparr>) else stmt (d\<lparr>faults := bs\<rparr>))"

section \<open>auth.ts\<close>

definition user_view :: "DBUser \<Rightarrow> UserView" where
  "user_view u = \<lparr>uv_id = u_id u, uv_email = u_email u, uv_username = u_username u,
                  uv_created_at = u_created_at u, uv_updated_at = u_updated_at u\<rparr>"

definition select_user_by_email :: "string \<Rightarrow> DB \<Rightarrow> DBUser list result \<times> DB" where
  "select_user_by_email email d = (Ok (filter (\<lambda>u. u_email u = email) (users d)), d)"

definition select_user_by_id :: "string \<Rightarrow> DB \<Rightarrow> DBUser list result \<times> DB" where
  "select_user_by_id uid d = (Ok (filter (\<lambda>u. u_id u = uid) (users d)), d)"

text \<open>\<open>INSERT INTO users ... RETURNING\<close>; \<open>email\<close> is \<open>UNIQUE\<close>.\<close>

definition insert_user :: "Env \<Rightarrow> int \<Rightarrow> string \<Rightarrow> string \<Rightarrow> string \<Rightarrow> DB \<Rightarrow> DBUser list result \<times> DB" where
  "insert_user E now email username passwordHash d =
     (if email \<in> set (map u_email (users d)) then (Threw, d)
      else
        let row = \<lparr>u_id = uuid_gen E (uuid_next d), u_email = email, u_username = username,
                   u_password_hash = passwordHash, u_created_at = now, u_updated_at = now\<rparr>
        in (Ok [row], d\<lparr>users := users d @ [row], uuid_next := Suc (uuid_next d)\<rparr>))"

definition generateToken :: "Env \<Rightarrow> string \<Rightarrow> string \<Rightarrow> string" where
  "generateToken E userId email = jwt_sign E userId email"

definition verifyToken :: "Env \<Rightarrow> string \<Rightarrow> JWTPayload option" where
  "verifyToken E tok = jwt_verify E tok"

definition auth_failure :: "string \<Rightarrow> AuthResponse" where
  "auth_failure msg = \<lparr>success = False, token = None, user = None, error = Some msg\<rparr>"

definition auth_success :: "Env \<Rightarrow> DBUser \<Rightarrow> AuthResponse" where
  "auth_success E u =
     \<lparr>success = True, token = Some (generateToken E (u_id u) (u_email u)),
      user = Some (user_view u), error = None\<rparr>"

definition registerUser :: "Env \<Rightarrow> int \<Rightarrow> string \<Rightarrow> string \<Rightarrow> string \<Rightarrow> DB \<Rightarrow> AuthResponse \<times> DB" where
  "registerUser E now email username password d =
     (case query (select_user_by_email email) d of
        (Threw, d1) \<Rightarrow> (auth_failure ''Registration failed'', d1)
      | (Ok existing, d1) \<Rightarrow>
          if length existing > 0 then (auth_failure ''Email already registered'', d1)
          else
            (case query (insert_user E now email username (bcrypt_hash E password)) d1 of
               (Threw, d2) \<Rightarrow> (auth_failure ''Registration failed'', d2)
             | (Ok [], d2) \<Rightarrow> (auth_failure ''Registration failed'', d2)
             | (Ok (u # _), d2) \<Rightarrow> (auth_success E u, d2)))"

definition loginUser :: "Env \<Rightarrow> string \<Rightarrow> string \<Rightarrow> DB \<Rightarrow> AuthResponse \<times> DB" where
  "loginUser E email password d =
     (case query (select_user_by_email email) d of
        (Threw, d1) \<Rightarrow> (auth_failure ''Login failed'', d1)
      | (Ok [], d1) \<Rightarrow> (auth_failure ''Invalid credentials'', d1)
      | (Ok (u # _), d1) \<Rightarrow>
          if \<not> bcrypt_compare E password (u_password_hash u)
          then (auth_failure ''Invalid credentials'', d1)
          else (auth_success E u, d1))"

definition getUserById :: "string \<Rightarrow> DB \<Rightarrow> UserView option \<times> DB" where
  "getUserById userId d =
     (case query (select_user_by_id userId) d of
        (Threw, d1) \<Rightarrow> (None, d1)
      | (Ok [], d1) \<Rightarrow> (None, d1)
      | (Ok (u # _), d1) \<Rightarrow> (Some (user_view u), d1))"

section \<open>machines.ts\<close>

text \<open>
  The upsert of \<open>registerMachine\<close>. \<open>user_id\<close> references \<open>users(id)\<close>, so a row for an
  unknown user is rejected; \<open>(user_id, name)\<close> is unique, and a conflicting row is
  updated in place.
\<close>

definition upsert_machine ::
  "Env \<Rightarrow> int \<Rightarrow> string \<Rightarrow> string \<Rightarrow> string \<Rightarrow> MachineCapabilities \<Rightarrow> DB \<Rightarrow> DBMachine list result \<times> DB" where
  "upsert_machine E now userId name platform capabilities d =
     (if userId \<notin> set (map u_id (users d)) then (Threw, d)
      else
        let hit = (\<lambda>r. m_user_id r = userId \<and> m_name r = name) in
        if list_ex hit (machines d) then
          let rows = map (\<lambda>r. if hit r
                               then r\<lparr>m_platform := platform, m_capabilities := capabilities,
                                      m_is_online := True, m_last_seen := now\<rparr>
                               else r) (machines d)
          in (Ok (filter hit rows), d\<lparr>machines := rows\<rparr>)
        else
          let row = \<lparr>m_id = uuid_gen E (uuid_next d), m_user_id = userId, m_name = name,
                     m_platform = platform, m_last_seen = now, m_is_online = True,
                     m_capabilities = capabilities, m_created_at = now\<rparr>
          in (Ok [row], d\<lparr>machines := machines d @ [row], uuid_next := Suc (uuid_next d)\<rparr>))"

definition registerMachine ::
  "Env \<Rightarrow> int \<Rightarrow> string \<Rightarrow> string \<Rightarrow> string \<Rightarrow> MachineCapabilities \<Rightarrow> DB \<Rightarrow> DBMachine result \<times> DB" where
  "registerMachine E now userId name platform capabilities d =
     (case query (upsert_machine E now userId name platform capabilities) d of
        (Threw, d1) \<Rightarrow> (Threw, d1)
      | (Ok [], d1) \<Rightarrow> (Threw, d1)
      | (Ok (row # _), d1) \<Rightarrow> (Ok row, d1))"

definition update_online_status :: "int \<Rightarrow> string \<Rightarrow> bool \<Rightarrow> DB \<Rightarrow> unit result \<times> DB" where
  "update_online_status now machineId isOnline d =
     (Ok (), d\<lparr>machines := map (\<lambda>r. if m_id r = machineId
                                       then r\<lparr>m_is_online := isOnline, m_last_seen := now\<rparr>
                                       else r) (machines d)\<rparr>)"

definition updateMachineOnlineStatus :: "int \<Rightarrow> string \<Rightarrow> bool \<Rightarrow> DB \<Rightarrow> unit result \<times> DB" where
  "updateMachineOnlineStatus now machineId isOnline d =
     query (update_online_status now machineId isOnline) d"

definition update_last_seen :: "int \<Rightarrow> string \<Rightarrow> DB \<Rightarrow> unit result \<times> DB" where
  "update_last_seen now machineId d =
     (Ok (), d\<lparr>machines := map (\<lambda>r. if m_id r = machineId then r\<lparr>m_last_seen := now\<rparr> else r)
                                  (machines d)\<rparr>)"

definition updateMachineHeartbeat :: "int \<Rightarrow> string \<Rightarrow> DB \<Rightarrow> unit result \<times> DB" where
  "updateMachineHeartbeat now machineId d = query (update_last_seen now machineId) d"

text \<open>\<open>ORDER BY name\<close> is taken bytewise.\<close>

definition select_machines_of_user :: "string \<Rightarrow> DB \<Rightarrow> DBMachine list result \<times> DB" where
  "select_machines_of_user userId d =
     (Ok (sort_key m_name (filter (\<lambda>r. m_user_id r = userId) (machines d))), d)"

definition machine_info :: "DBMachine \<Rightarrow> MachineInfo" where
  "machine_info r = \<lparr>mi_id = m_id r, mi_name = m_name r, mi_platform = m_platform r,
                     mi_isOnline = m_is_online r, mi_lastSeen = m_last_seen r, mi_isOwn = True\<rparr>"

definition getMachinesForUser :: "string \<Rightarrow> DB \<Rightarrow> MachineInfo list result \<times> DB" where
  "getMachinesForUser userId d =
     (case query (select_machines_of_user userId) d of
        (Threw, d1) \<Rightarrow> (Threw, d1)
      | (Ok rows, d1) \<Rightarrow> (Ok (map machine_info rows), d1))"

definition select_machine_by_id :: "string \<Rightarrow> DB \<Rightarrow> DBMachine list result \<times> DB" where
  "select_machine_by_id machineId d = (Ok (filter (\<lambda>r. m_id r = machineId) (machines d)), d)"

definition getMachineById :: "string \<Rightarrow> DB \<Rightarrow> DBMachine option result \<times> DB" where
  "getMachineById machineId d =
     (case query (select_machine_by_id machineId) d of
        (Threw, d1) \<Rightarrow> (Threw, d1)
      | (Ok [], d1) \<Rightarrow> (Ok None, d1)
      | (Ok (row # _), d1) \<Rightarrow> (Ok (Some row), d1))"

text \<open>The condition of the stale sweep's \<open>WHERE\<close>.\<close>

definition stale :: "int \<Rightarrow> int \<Rightarrow> DBMachine \<Rightarrow> bool" where
  "stale now timeoutMs r = (m_is_online r = True \<and> m_last_seen r < now - 1 * timeoutMs)"

definition update_stale :: "int \<Rightarrow> int \<Rightarrow> DB \<Rightarrow> string list result \<times> DB" where
  "update_stale now timeoutMs d =
     (Ok (map m_id (filter (stale now timeoutMs) (machines d))),
      d\<lparr>machines := map (\<lambda>r. if stale now timeoutMs r then r\<lparr>m_is_online := False\<rparr> else r)
                          (machines d)\<rparr>)"

definition markStaleOffline :: "int \<Rightarrow> int \<Rightarrow> DB \<Rightarrow> string list result \<times> DB" where
  "markStaleOffline now timeoutMs d = query (update_stale now timeoutMs) d"

definition select_owned :: "string \<Rightarrow> string \<Rightarrow> DB \<Rightarrow> DBMachine list result \<times> DB" where
  "select_owned machineId userId d =
     (Ok (filter (\<lambda>r. m_id r = machineId \<and> m_user_id r = userId) (machines d)), d)"

definition canUserAccessMachine :: "string \<Rightarrow> string \<Rightarrow> DB \<Rightarrow> bool result \<times> DB" where
  "canUserAccessMachine userId machineId d =
     (case query (select_owned machineId userId) d of
        (Threw, d1) \<Rightarrow> (Threw, d1)
      | (Ok rows, d1) \<Rightarrow> (Ok (length rows > 0), d1))"

definition delete_owned :: "string \<Rightarrow> string \<Rightarrow> DB \<Rightarrow> string list result \<times> DB" where
  "delete_owned machineId userId d =
     (let hit = (\<lambda>r. m_id r = machineId \<and> m_user_id r = userId)
      in (Ok (map m_id (filter hit (machines d))),
          d\<lparr>machines := filter (\<lambda>r. \<not> hit r) (machines d)\<rparr>))"

definition deleteMachine :: "string \<Rightarrow> string \<Rightarrow> DB \<Rightarrow> bool result \<times> DB" where
  "deleteMachine userId machineId d =
     (case query (delete_owned machineId userId) d of
        (Threw, d1) \<Rightarrow> (Threw, d1)
      | (Ok rows, d1) \<Rightarrow> (Ok (length rows > 0), d1))"

text \<open>The rename violates \<open>UNIQUE (user_id, name)\<close> when another row of the owner has the name.\<close>

definition rename_owned :: "string \<Rightarrow> string \<Rightarrow> string \<Rightarrow> DB \<Rightarrow> string list result \<times> DB" where
  "rename_owned machineId userId newName d =
     (let hit = (\<lambda>r. m_id r = machineId \<and> m_user_id r = userId) in
      if list_ex hit (machines d) \<and>
         list_ex (\<lambda>r. \<not> hit r \<and> m_user_id r = userId \<and> m_name r = newName) (machines d)
      then (Threw, d)
      else (Ok (map m_id (filter hit (machines d))),
            d\<lparr>machines := map (\<lambda>r. if hit r then r\<lparr>m_name := newName\<rparr> else r) (machines d)\<rparr>))"

definition renameMachine :: "string \<Rightarrow> string \<Rightarrow> string \<Rightarrow> DB \<Rightarrow> bool result \<times> DB" where
  "renameMachine userId machineId newName d =
     (case query (rename_owned machineId userId newName) d of
        (Threw, d1) \<Rightarrow> (Threw, d1)
      | (Ok rows, d1) \<Rightarrow> (Ok (length rows > 0), d1))"

section \<open>types.ts: channels and frames\<close>

record ConnectedClient =
  ws_open :: bool
  userId :: "string option"
  machineId :: "string option"
  authenticated :: bool
  lastHeartbeat :: int

datatype WSMessageType =
    T_auth | T_auth_response | T_register_user | T_register_user_response
  | T_register_machine | T_machine_registered | T_heartbeat | T_heartbeat_ack
  | T_list_machines | T_machines_list | T_delete_machine | T_delete_machine_response
  | T_rename_machine | T_rename_machine_response | T_connect_to_machine
  | T_connection_request | T_connection_accepted | T_connection_rejected
  | T_rtc_offer | T_rtc_answer | T_rtc_ice_candidate
  | T_machine_online | T_machine_offline | T_error

text \<open>The payloads the server writes.\<close>

datatype Payload =
    AuthResponseP AuthResponse
  | MachineRegisteredP string string
  | HeartbeatAckP
  | MachinesListP "MachineInfo list"
  | DeleteMachineResponseP bool string
  | RenameMachineResponseP bool string string
  | ConnectionRequestP string string string
  | ConnectionAcceptedP string string
  | ConnectionRejectedP string string
  | RTCOfferP string string string
  | RTCAnswerP string string string
  | RTCIceCandidateP string "string option" string "string option" "int option"
  | MachineStatusP string string
  | ErrorP string string

record WSMessage =
  msg_type :: WSMessageType
  msg_id :: "string option"
  payload :: Payload

record AuthPayload =
  a_token :: "string option"
  a_email :: "string option"
  a_password :: "string option"

record RegisterUserPayload =
  ru_email :: string
  ru_username :: string
  ru_password :: string

record RegisterMachinePayload =
  rm_name :: string
  rm_platform :: string
  rm_capabilities :: MachineCapabilities

record RTCPayload =
  connectionId :: string
  targetMachineId :: string
  sdp :: string

record RTCIceCandidatePayload =
  ice_connectionId :: string
  ice_targetMachineId :: string
  candidate :: string
  sdpMid :: "string option"
  sdpMLineIndex :: "int option"

text \<open>
  A parsed inbound frame: its \<open>type\<close> with the payload shape types.ts declares for it.
  \<open>RTCPayload\<close> stands for \<open>RTCOfferPayload\<close> and \<open>RTCAnswerPayload\<close>, which have the same
  fields. \<open>Other_type\<close> is any \<open>type\<close> that \<open>handleMessage\<close> has no case for.
\<close>

datatype Request =
    Auth AuthPayload
  | Register_user RegisterUserPayload
  | Register_machine RegisterMachinePayload
  | Heartbeat
  | List_machines
  | Delete_machine string
  | Rename_machine string string
  | Connect_to_machine string
  | Connection_accepted string
  | Connection_rejected string string
  | Rtc_offer RTCPayload
  | Rtc_answer RTCPayload
  | Rtc_ice_candidate RTCIceCandidatePayload
  | Other_type string

record Inbound =
  in_id :: "string option"
  in_request :: Request

section \<open>signaling.ts\<close>

record PendingConnection =
  p_id :: string
  fromMachineId :: "string option"
  fromClientId :: string
  toMachineId :: string
  fromClient :: nat
  createdAt :: int

text \<open>A timer armed by \<open>setTimeout\<close>, with what its closure captured.\<close>

record Timer =
  t_connectionId :: string
  t_clientId :: string
  t_client :: nat
  t_due :: int

text \<open>
  The process state: the client objects, the \<open>clients\<close> table of server.ts (its keys, in
  insertion order), the three tables and the counter of signaling.ts, the armed
  timers, the store, and \<open>outbox\<close>, the frames written to sockets so far, oldest first.
  \<open>machineClients\<close> is an association list because \<open>broadcastMachineStatus\<close> iterates it:
  \<open>AList.update\<close> is \<open>Map.set\<close> (in place for a present key, at the end otherwise).
\<close>

record ServerState =
  heap :: "nat \<Rightarrow> ConnectedClient"
  next_ref :: nat
  clients :: "nat list"
  machineClients :: "(string \<times> nat) list"
  webClients :: "string \<rightharpoonup> nat"
  webClientCounter :: nat
  pendingConnections :: "string \<rightharpoonup> PendingConnection"
  timers :: "Timer list"
  db :: DB
  uuid_drawn :: nat
  outbox :: "(nat \<times> WSMessage) list"

definition send :: "nat \<Rightarrow> WSMessage \<Rightarrow> ServerState \<Rightarrow> ServerState" where
  "send ws message st =
     (if ws_open (heap st ws) then st\<lparr>outbox := outbox st @ [(ws, message)]\<rparr> else st)"

definition error_frame :: "string \<Rightarrow> string \<Rightarrow> WSMessage" where
  "error_frame code message = \<lparr>msg_type = T_error, msg_id = None, payload = ErrorP code message\<rparr>"

definition sendError :: "nat \<Rightarrow> string \<Rightarrow> string \<Rightarrow> ServerState \<Rightarrow> ServerState" where
  "sendError ws code message st = send ws (error_frame code message) st"

definition registerMachineClient :: "string \<Rightarrow> nat \<Rightarrow> ServerState \<Rightarrow> ServerState" where
  "registerMachineClient mid client st =
     st\<lparr>machineClients := AList.update mid client (machineClients st)\<rparr>"

definition unregisterMachineClient :: "string \<Rightarrow> ServerState \<Rightarrow> ServerState" where
  "unregisterMachineClient mid st = st\<lparr>machineClients := AList.delete mid (machineClients st)\<rparr>"

definition getMachineClient :: "string \<Rightarrow> ServerState \<Rightarrow> nat option" where
  "getMachineClient mid st = map_of (machineClients st) mid"

text \<open>The body of the 30 s timer of \<open>handleConnectToMachine\<close>.\<close>

definition connectionTimeout :: "Timer \<Rightarrow> ServerState \<Rightarrow> ServerState" where
  "connectionTimeout t st =
     (if pendingConnections st (t_connectionId t) \<noteq> None then
        let st1 = st\<lparr>pendingConnections := (pendingConnections st)(t_connectionId t := None)\<rparr>;
            st2 = (if \<not> truthy (machineId (heap st1 (t_client t))) \<and> t_clientId t \<noteq> []
                   then st1\<lparr>webClients := (webClients st1)(t_clientId t := None)\<rparr>
                   else st1)
        in sendError (t_client t) ''CONNECTION_TIMEOUT'' ''Connection request timed out'' st2
      else st)"

definition connection_request :: "string \<Rightarrow> string \<Rightarrow> string \<Rightarrow> WSMessage" where
  "connection_request clientId sourceName cid =
     \<lparr>msg_type = T_connection_request, msg_id = None,
      payload = ConnectionRequestP clientId sourceName cid\<rparr>"

text \<open>
  The tail of \<open>handleConnectToMachine\<close>, from the creation of the pending connection on.
\<close>

definition createPending ::
  "Env \<Rightarrow> int \<Rightarrow> nat \<Rightarrow> string \<Rightarrow> nat \<Rightarrow> string \<Rightarrow> string \<Rightarrow> ServerState \<Rightarrow> ServerState" where
  "createPending E now client target targetClient clientId sourceName st =
     (let cid = uuidv4 E (uuid_drawn st);
          pending = \<lparr>p_id = cid, fromMachineId = machineId (heap st client),
                     fromClientId = clientId, toMachineId = target, fromClient = client,
                     createdAt = now\<rparr>;
          st1 = st\<lparr>uuid_drawn := Suc (uuid_drawn st),
                   pendingConnections := (pendingConnections st)(cid \<mapsto> pending)\<rparr>;
          st2 = send targetClient (connection_request clientId sourceName cid) st1
      in st2\<lparr>timers := timers st2 @
                 [\<lparr>t_connectionId = cid, t_clientId = clientId, t_client = client,
                   t_due = now + 30000\<rparr>]\<rparr>)"

definition handleConnectToMachine ::
  "Env \<Rightarrow> int \<Rightarrow> nat \<Rightarrow> string \<Rightarrow> ServerState \<Rightarrow> outcome \<times> ServerState" where
  "handleConnectToMachine E now client target st =
     (if \<not> truthy (userId (heap st client))
      then (Returned, sendError client ''NOT_AUTHENTICATED'' ''Must be authenticated'' st)
      else
        case canUserAccessMachine (or_else (userId (heap st client)) []) target (db st) of
          (Threw, d1) \<Rightarrow> (Thrown, st\<lparr>db := d1\<rparr>)
        | (Ok canAccess, d1) \<Rightarrow>
            if \<not> canAccess
            then (Returned, sendError client ''ACCESS_DENIED''
                              ''You do not have access to this machine'' (st\<lparr>db := d1\<rparr>))
            else
              (case map_of (machineClients st) target of
                 None \<Rightarrow> (Returned, sendError client ''MACHINE_OFFLINE''
                                      ''Target machine is not online'' (st\<lparr>db := d1\<rparr>))
               | Some targetClient \<Rightarrow>
                   if truthy (machineId (heap st client)) then
                     (let mid = or_else (machineId (heap st client)) [] in
                      case getMachineById mid d1 of
                        (Threw, d2) \<Rightarrow> (Thrown, st\<lparr>db := d2\<rparr>)
                      | (Ok sourceMachine, d2) \<Rightarrow>
                          (Returned,
                           createPending E now client target targetClient mid
                             (case sourceMachine of None \<Rightarrow> ''Web Client'' | Some m \<Rightarrow> m_name m)
                             (st\<lparr>db := d2\<rparr>)))
                   else
                     (let n = Suc (webClientCounter st);
                          clientId = ''web-client-'' @ string_of_nat n
                      in (Returned,
                          createPending E now client target targetClient clientId ''Web Client''
                            (st\<lparr>db := d1, webClientCounter := n,
                                webClients := (webClients st)(clientId \<mapsto> client)\<rparr>)))))"

definition handleConnectionAccepted :: "nat \<Rightarrow> string \<Rightarrow> ServerState \<Rightarrow> ServerState" where
  "handleConnectionAccepted client cid st =
     (case pendingConnections st cid of
        None \<Rightarrow> sendError client ''CONNECTION_NOT_FOUND''
                  ''Connection request not found or expired'' st
      | Some pending \<Rightarrow>
          if machineId (heap st client) \<noteq> Some (toMachineId pending)
          then sendError client ''INVALID_CONNECTION''
                 ''You are not the target of this connection'' st
          else send (fromClient pending)
                 \<lparr>msg_type = T_connection_accepted, msg_id = None,
                  payload = ConnectionAcceptedP cid (toMachineId pending)\<rparr> st)"

definition handleConnectionRejected :: "nat \<Rightarrow> string \<Rightarrow> string \<Rightarrow> ServerState \<Rightarrow> ServerState" where
  "handleConnectionRejected client cid reason st =
     (case pendingConnections st cid of
        None \<Rightarrow> st
      | Some pending \<Rightarrow>
          if machineId (heap st client) \<noteq> Some (toMachineId pending) then st
          else
            (let st1 = send (fromClient pending)
                         \<lparr>msg_type = T_connection_rejected, msg_id = None,
                          payload = ConnectionRejectedP cid reason\<rparr> st
             in st1\<lparr>pendingConnections := (pendingConnections st1)(cid := None)\<rparr>))"

text \<open>\<open>machineClients.get(clientId) || webClients.get(clientId)\<close>\<close>

definition getClientById :: "string \<Rightarrow> ServerState \<Rightarrow> nat option" where
  "getClientById clientId st =
     (case map_of (machineClients st) clientId of
        Some c \<Rightarrow> Some c
      | None \<Rightarrow> webClients st clientId)"

definition handleRTCOffer :: "nat \<Rightarrow> RTCPayload \<Rightarrow> ServerState \<Rightarrow> ServerState" where
  "handleRTCOffer client pl st =
     (case pendingConnections st (connectionId pl) of
        None \<Rightarrow> sendError client ''CONNECTION_NOT_FOUND'' ''Connection not found'' st
      | Some pending \<Rightarrow>
          let clientIdentifier = or_else (machineId (heap st client)) (fromClientId pending);
              isFromClient = (fromClient pending = client \<or>
                              clientIdentifier = fromClientId pending);
              isToClient = (machineId (heap st client) = Some (toMachineId pending))
          in
          if \<not> isFromClient \<and> \<not> isToClient
          then sendError client ''INVALID_CONNECTION'' ''You are not part of this connection'' st
          else
            (case map_of (machineClients st) (targetMachineId pl) of
               None \<Rightarrow> sendError client ''MACHINE_OFFLINE'' ''Target machine went offline'' st
             | Some targetClient \<Rightarrow>
                 let senderClientId = or_else (machineId (heap st client)) (fromClientId pending)
                 in send targetClient
                      \<lparr>msg_type = T_rtc_offer, msg_id = None,
                       payload = RTCOfferP (connectionId pl) senderClientId (sdp pl)\<rparr> st))"

definition handleRTCAnswer :: "nat \<Rightarrow> RTCPayload \<Rightarrow> ServerState \<Rightarrow> ServerState" where
  "handleRTCAnswer client pl st =
     (case pendingConnections st (connectionId pl) of
        None \<Rightarrow> sendError client ''CONNECTION_NOT_FOUND'' ''Connection not found'' st
      | Some pending \<Rightarrow>
          (case getClientById (targetMachineId pl) st of
             None \<Rightarrow> sendError client ''MACHINE_OFFLINE'' ''Target went offline'' st
           | Some targetClient \<Rightarrow>
               let st1 = send targetClient
                           \<lparr>msg_type = T_rtc_answer, msg_id = None,
                            payload = RTCAnswerP (connectionId pl)
                                        (or_else (machineId (heap st client)) (toMachineId pending))
                                        (sdp pl)\<rparr> st;
                   st2 = (if fromClientId pending \<noteq> [] \<and> \<not> truthy (fromMachineId pending)
                          then st1\<lparr>webClients := (webClients st1)(fromClientId pending := None)\<rparr>
                          else st1)
               in st2\<lparr>pendingConnections := (pendingConnections st2)(connectionId pl := None)\<rparr>))"

text \<open>\<open>client.machineId || pending?.fromClientId\<close>, which may be \<open>undefined\<close>.\<close>

definition ice_sender :: "string option \<Rightarrow> PendingConnection option \<Rightarrow> string option" where
  "ice_sender mid pending =
     (if truthy mid then mid else map_option fromClientId pending)"

definition handleRTCIceCandidate ::
  "nat \<Rightarrow> RTCIceCandidatePayload \<Rightarrow> ServerState \<Rightarrow> ServerState" where
  "handleRTCIceCandidate client pl st =
     (case getClientById (ice_targetMachineId pl) st of
        None \<Rightarrow> st
      | Some targetClient \<Rightarrow>
          let pending = pendingConnections st (ice_connectionId pl);
              senderClientId = ice_sender (machineId (heap st client)) pending
          in send targetClient
               \<lparr>msg_type = T_rtc_ice_candidate, msg_id = None,
                payload = RTCIceCandidateP (ice_connectionId pl) senderClientId (candidate pl)
                            (sdpMid pl) (sdpMLineIndex pl)\<rparr> st)"

definition machine_status :: "bool \<Rightarrow> string \<Rightarrow> string \<Rightarrow> WSMessage" where
  "machine_status isOnline mid name =
     \<lparr>msg_type = (if isOnline then T_machine_online else T_machine_offline), msg_id = None,
      payload = MachineStatusP mid name\<rparr>"

definition broadcastMachineStatus ::
  "string \<Rightarrow> bool \<Rightarrow> nat option \<Rightarrow> ServerState \<Rightarrow> outcome \<times> ServerState" where
  "broadcastMachineStatus mid isOnline excludeClient st =
     (case getMachineById mid (db st) of
        (Threw, d1) \<Rightarrow> (Thrown, st\<lparr>db := d1\<rparr>)
      | (Ok None, d1) \<Rightarrow> (Returned, st\<lparr>db := d1\<rparr>)
      | (Ok (Some machine), d1) \<Rightarrow>
          (Returned,
           fold (\<lambda>(_, client) s.
                   if userId (heap s client) = Some (m_user_id machine) \<and>
                      Some client \<noteq> excludeClient
                   then send client (machine_status isOnline mid (m_name machine)) s
                   else s)
                (machineClients st) (st\<lparr>db := d1\<rparr>)))"

section \<open>config.ts\<close>

record TurnServer =
  urls :: string
  username :: string
  credential :: string

record Config =
  allowedOrigins :: "string list"
  heartbeatInterval :: int
  heartbeatTimeout :: int
  stunServers :: "string list"
  turnServers :: "TurnServer list"

section \<open>server.ts: the control channel\<close>

definition set_authenticated :: "nat \<Rightarrow> string \<Rightarrow> ServerState \<Rightarrow> ServerState" where
  "set_authenticated client uid st =
     st\<lparr>heap := (heap st)(client := (heap st client)\<lparr>authenticated := True, userId := Some uid\<rparr>)\<rparr>"

text \<open>The branches of \<open>handleAuth\<close> that compute \<open>response\<close>.\<close>

definition authenticate :: "Env \<Rightarrow> nat \<Rightarrow> AuthPayload \<Rightarrow> ServerState \<Rightarrow> AuthResponse \<times> ServerState" where
  "authenticate E client pl st =
     (if truthy (a_token pl) then
        (case verifyToken E (or_else (a_token pl) []) of
           None \<Rightarrow> (auth_failure ''Invalid or expired token'', st)
         | Some decoded \<Rightarrow>
             (case getUserById (jwt_userId decoded) (db st) of
                (None, d1) \<Rightarrow> (auth_failure ''User not found'', st\<lparr>db := d1\<rparr>)
              | (Some u, d1) \<Rightarrow>
                  (\<lparr>success = True, token = None, user = Some u, error = None\<rparr>,
                   set_authenticated client (uv_id u) (st\<lparr>db := d1\<rparr>))))
      else if truthy (a_email pl) \<and> truthy (a_password pl) then
        (case loginUser E (or_else (a_email pl) []) (or_else (a_password pl) []) (db st) of
           (response, d1) \<Rightarrow>
             (case user response of
                Some u \<Rightarrow>
                  if success response
                  then (response, set_authenticated client (uv_id u) (st\<lparr>db := d1\<rparr>))
                  else (response, st\<lparr>db := d1\<rparr>)
              | None \<Rightarrow> (response, st\<lparr>db := d1\<rparr>)))
      else (auth_failure ''Must provide token or email/password'', st))"

definition handleAuth ::
  "Env \<Rightarrow> nat \<Rightarrow> AuthPayload \<Rightarrow> string option \<Rightarrow> ServerState \<Rightarrow> ServerState" where
  "handleAuth E client pl messageId st =
     (case authenticate E client pl st of
        (response, st1) \<Rightarrow>
          send client \<lparr>msg_type = T_auth_response, msg_id = messageId,
                       payload = AuthResponseP response\<rparr> st1)"

definition handleRegisterUser ::
  "Env \<Rightarrow> int \<Rightarrow> nat \<Rightarrow> RegisterUserPayload \<Rightarrow> string option \<Rightarrow> ServerState \<Rightarrow> ServerState" where
  "handleRegisterUser E now client pl messageId st =
     (case registerUser E now (ru_email pl) (ru_username pl) (ru_password pl) (db st) of
        (response, d1) \<Rightarrow>
          let st1 = (case user response of
                       Some u \<Rightarrow>
                         if success response
                         then set_authenticated client (uv_id u) (st\<lparr>db := d1\<rparr>)
                         else st\<lparr>db := d1\<rparr>
                     | None \<Rightarrow> st\<lparr>db := d1\<rparr>)
          in send client \<lparr>msg_type = T_register_user_response, msg_id = messageId,
                          payload = AuthResponseP response\<rparr> st1)"

text \<open>
  The \<open>try\<close> block of \<open>handleRegisterMachine\<close>: what it throws is caught by the handler.
\<close>

definition registerMachine_try ::
  "Env \<Rightarrow> int \<Rightarrow> nat \<Rightarrow> string \<Rightarrow> RegisterMachinePayload \<Rightarrow> string option \<Rightarrow> ServerState
     \<Rightarrow> outcome \<times> ServerState" where
  "registerMachine_try E now client uid pl messageId st =
     (case registerMachine E now uid (rm_name pl) (rm_platform pl) (rm_capabilities pl) (db st) of
        (Threw, d1) \<Rightarrow> (Thrown, st\<lparr>db := d1\<rparr>)
      | (Ok machine, d1) \<Rightarrow>
          let st1 = st\<lparr>db := d1,
                      heap := (heap st)(client := (heap st client)\<lparr>machineId := Some (m_id machine)\<rparr>)\<rparr>;
              st2 = registerMachineClient (m_id machine) client st1
          in (case broadcastMachineStatus (m_id machine) True (Some client) st2 of
                (Thrown, st3) \<Rightarrow> (Thrown, st3)
              | (Returned, st3) \<Rightarrow>
                  (Returned,
                   send client \<lparr>msg_type = T_machine_registered, msg_id = messageId,
                                payload = MachineRegisteredP (m_id machine) (m_name machine)\<rparr> st3)))"

definition handleRegisterMachine ::
  "Env \<Rightarrow> int \<Rightarrow> nat \<Rightarrow> RegisterMachinePayload \<Rightarrow> string option \<Rightarrow> ServerState \<Rightarrow> ServerState" where
  "handleRegisterMachine E now client pl messageId st =
     (if \<not> truthy (userId (heap st client))
      then sendError client ''NOT_AUTHENTICATED'' ''Must authenticate first'' st
      else
        case registerMachine_try E now client (or_else (userId (heap st client)) []) pl messageId st of
          (Returned, st1) \<Rightarrow> st1
        | (Thrown, st1) \<Rightarrow>
            sendError client ''REGISTRATION_FAILED'' ''Failed to register machine'' st1)"

definition handleDisconnect :: "int \<Rightarrow> nat \<Rightarrow> ServerState \<Rightarrow> outcome \<times> ServerState" where
  "handleDisconnect now client st =
     (if truthy (machineId (heap st client)) then
        (let mid = or_else (machineId (heap st client)) [];
             st1 = unregisterMachineClient mid st
         in case updateMachineOnlineStatus now mid False (db st1) of
              (Threw, d1) \<Rightarrow> (Thrown, st1\<lparr>db := d1\<rparr>)
            | (Ok _, d1) \<Rightarrow> broadcastMachineStatus mid False None (st1\<lparr>db := d1\<rparr>))
      else (Returned, st))"

definition not_authenticated :: "nat \<Rightarrow> ServerState \<Rightarrow> outcome \<times> ServerState" where
  "not_authenticated client st =
     (Returned, sendError client ''NOT_AUTHENTICATED'' ''Must authenticate first'' st)"

fun handleMessage :: "Env \<Rightarrow> int \<Rightarrow> nat \<Rightarrow> string option \<Rightarrow> Request \<Rightarrow> ServerState \<Rightarrow> outcome \<times> ServerState" where
  "handleMessage E now client mid (Auth pl) st = (Returned, handleAuth E client pl mid st)"
| "handleMessage E now client mid (Register_user pl) st =
     (Returned, handleRegisterUser E now client pl mid st)"
| "handleMessage E now client mid (Register_machine pl) st =
     (if \<not> authenticated (heap st client) then not_authenticated client st
      else (Returned, handleRegisterMachine E now client pl mid st))"
| "handleMessage E now client mid Heartbeat st =
     (let st1 = st\<lparr>heap := (heap st)(client := (heap st client)\<lparr>lastHeartbeat := now\<rparr>)\<rparr> in
      if truthy (machineId (heap st1 client)) then
        (case updateMachineHeartbeat now (or_else (machineId (heap st1 client)) []) (db st1) of
           (Threw, d1) \<Rightarrow> (Thrown, st1\<lparr>db := d1\<rparr>)
         | (Ok _, d1) \<Rightarrow>
             (Returned, send client \<lparr>msg_type = T_heartbeat_ack, msg_id = None,
                                     payload = HeartbeatAckP\<rparr> (st1\<lparr>db := d1\<rparr>)))
      else (Returned, send client \<lparr>msg_type = T_heartbeat_ack, msg_id = None,
                                   payload = HeartbeatAckP\<rparr> st1))"
| "handleMessage E now client mid List_machines st =
     (if \<not> authenticated (heap st client) \<or> \<not> truthy (userId (heap st client))
      then not_authenticated client st
      else
        case getMachinesForUser (or_else (userId (heap st client)) []) (db st) of
          (Threw, d1) \<Rightarrow> (Thrown, st\<lparr>db := d1\<rparr>)
        | (Ok ms, d1) \<Rightarrow>
            (Returned, send client \<lparr>msg_type = T_machines_list, msg_id = mid,
                                    payload = MachinesListP ms\<rparr> (st\<lparr>db := d1\<rparr>)))"
| "handleMessage E now client mid (Delete_machine deleteMachineId) st =
     (if \<not> authenticated (heap st client) \<or> \<not> truthy (userId (heap st client))
      then not_authenticated client st
      else
        case deleteMachine (or_else (userId (heap st client)) []) deleteMachineId (db st) of
          (Threw, d1) \<Rightarrow> (Thrown, st\<lparr>db := d1\<rparr>)
        | (Ok deleted, d1) \<Rightarrow>
            (Returned, send client \<lparr>msg_type = T_delete_machine_response, msg_id = mid,
                                    payload = DeleteMachineResponseP deleted deleteMachineId\<rparr>
                         (st\<lparr>db := d1\<rparr>)))"
| "handleMessage E now client mid (Rename_machine renameMachineId newName) st =
     (if \<not> authenticated (heap st client) \<or> \<not> truthy (userId (heap st client))
      then not_authenticated client st
      else
        case renameMachine (or_else (userId (heap st client)) []) renameMachineId newName (db st) of
          (Threw, d1) \<Rightarrow> (Thrown, st\<lparr>db := d1\<rparr>)
        | (Ok renamed, d1) \<Rightarrow>
            (Returned, send client \<lparr>msg_type = T_rename_machine_response, msg_id = mid,
                                    payload = RenameMachineResponseP renamed renameMachineId newName\<rparr>
                         (st\<lparr>db := d1\<rparr>)))"
| "handleMessage E now client mid (Connect_to_machine target) st =
     (if \<not> authenticated (heap st client) then not_authenticated client st
      else handleConnectToMachine E now client target st)"
| "handleMessage E now client mid (Connection_accepted cid) st =
     (Returned, handleConnectionAccepted client cid st)"
| "handleMessage E now client mid (Connection_rejected cid reason) st =
     (Returned, handleConnectionRejected client cid reason st)"
| "handleMessage E now client mid (Rtc_offer pl) st = (Returned, handleRTCOffer client pl st)"
| "handleMessage E now client mid (Rtc_answer pl) st = (Returned, handleRTCAnswer client pl st)"
| "handleMessage E now client mid (Rtc_ice_candidate pl) st =
     (Returned, handleRTCIceCandidate client pl st)"
| "handleMessage E now client mid (Other_type t) st =
     (Returned, sendError client ''UNKNOWN_MESSAGE'' (''Unknown message type: '' @ t) st)"

text \<open>
  The socket's \<open>message\<close> listener. \<open>None\<close> is data that \<open>JSON.parse\<close> rejects.
\<close>

definition onMessage :: "Env \<Rightarrow> int \<Rightarrow> nat \<Rightarrow> Inbound option \<Rightarrow> ServerState \<Rightarrow> ServerState" where
  "onMessage E now client data st =
     (case data of
        None \<Rightarrow> sendError client ''INVALID_MESSAGE'' ''Invalid message format'' st
      | Some message \<Rightarrow>
          (case handleMessage E now client (in_id message) (in_request message) st of
             (Returned, st1) \<Rightarrow> st1
           | (Thrown, st1) \<Rightarrow> sendError client ''INVALID_MESSAGE'' ''Invalid message format'' st1))"

text \<open>The server's \<open>connection\<close> listener: a fresh client object enters \<open>clients\<close>.\<close>

definition onConnection :: "int \<Rightarrow> ServerState \<Rightarrow> ServerState" where
  "onConnection now st =
     (let ws = next_ref st;
          client = \<lparr>ws_open = True, userId = None, machineId = None, authenticated = False,
                    lastHeartbeat = now\<rparr>
      in st\<lparr>heap := (heap st)(ws := client), next_ref := Suc ws, clients := clients st @ [ws]\<rparr>)"

text \<open>
  The socket's \<open>close\<close> listener; the socket is closed when it runs. When
  \<open>handleDisconnect\<close> throws, \<open>clients.delete\<close> is not reached.
\<close>

definition onClose :: "int \<Rightarrow> nat \<Rightarrow> ServerState \<Rightarrow> ServerState" where
  "onClose now client st =
     (let st0 = st\<lparr>heap := (heap st)(client := (heap st client)\<lparr>ws_open := False\<rparr>)\<rparr> in
      case handleDisconnect now client st0 of
        (Thrown, st1) \<Rightarrow> st1
      | (Returned, st1) \<Rightarrow> st1\<lparr>clients := removeAll client (clients st1)\<rparr>)"

text \<open>
  The periodic callback. \<open>ws.close()\<close> leaves the socket no longer open; its \<open>close\<close>
  listener runs later, as \<open>onClose\<close>.
\<close>

definition closeStale :: "Config \<Rightarrow> int \<Rightarrow> nat \<Rightarrow> ServerState \<Rightarrow> ServerState" where
  "closeStale cfg now ws st =
     (let elapsed = now - lastHeartbeat (heap st ws) in
      if elapsed > heartbeatTimeout cfg
      then st\<lparr>heap := (heap st)(ws := (heap st ws)\<lparr>ws_open := False\<rparr>)\<rparr>
      else st)"

fun broadcastOffline :: "string list \<Rightarrow> ServerState \<Rightarrow> outcome \<times> ServerState" where
  "broadcastOffline [] st = (Returned, st)"
| "broadcastOffline (mid # mids) st =
     (case broadcastMachineStatus mid False None st of
        (Thrown, st1) \<Rightarrow> (Thrown, st1)
      | (Returned, st1) \<Rightarrow> broadcastOffline mids st1)"

definition heartbeatCheck :: "Config \<Rightarrow> int \<Rightarrow> ServerState \<Rightarrow> outcome \<times> ServerState" where
  "heartbeatCheck cfg now st =
     (let st1 = fold (closeStale cfg now) (clients st) st in
      case markStaleOffline now (heartbeatTimeout cfg) (db st1) of
        (Threw, d1) \<Rightarrow> (Thrown, st1\<lparr>db := d1\<rparr>)
      | (Ok staleMachines, d1) \<Rightarrow> broadcastOffline staleMachines (st1\<lparr>db := d1\<rparr>))"

text \<open>The timers that are due fire in the order they were armed.\<close>

definition runTimers :: "int \<Rightarrow> ServerState \<Rightarrow> ServerState" where
  "runTimers now st =
     fold connectionTimeout (filter (\<lambda>t. t_due t \<le> now) (timers st))
       (st\<lparr>timers := filter (\<lambda>t. \<not> t_due t \<le> now) (timers st)\<rparr>)"

section \<open>server.ts: the HTTP surface\<close>

record Credentials =
  b_email :: "string option"
  b_username :: "string option"
  b_password :: "string option"

text \<open>
  A request: method, URL, the \<open>Origin\<close> and \<open>Authorization\<close> headers, and the body as
  \<open>JSON.parse\<close> reads it (\<open>None\<close> when reading or parsing it throws).
\<close>

record HttpRequest =
  req_method :: string
  req_url :: string
  req_origin :: "string option"
  req_authorization :: "string option"
  req_body :: "Credentials option"

record IceServer =
  ice_urls :: string
  ice_username :: "string option"
  ice_credential :: "string option"

datatype HttpBody =
    NoBody
  | TextBody string
  | HealthBody string nat
  | IceServersBody "IceServer list"
  | AuthBody AuthResponse
  | UserBody UserView
  | ErrorBody string

record HttpResponse =
  status :: nat
  headers :: "(string \<times> string) list"
  body :: HttpBody

definition json_headers :: "(string \<times> string) list" where
  "json_headers = [(''Content-Type'', ''application/json'')]"

definition cors_headers :: "Config \<Rightarrow> HttpRequest \<Rightarrow> (string \<times> string) list" where
  "cors_headers cfg req =
     (let origin = or_else (req_origin req) [] in
      if origin \<in> set (allowedOrigins cfg) \<or> ''*'' \<in> set (allowedOrigins cfg)
      then [(''Access-Control-Allow-Origin'', origin),
            (''Access-Control-Allow-Methods'', ''GET, POST, OPTIONS''),
            (''Access-Control-Allow-Headers'', ''Content-Type, Authorization'')]
      else [])"

definition iceServers :: "Config \<Rightarrow> IceServer list" where
  "iceServers cfg =
     map (\<lambda>url. \<lparr>ice_urls = url, ice_username = None, ice_credential = None\<rparr>) (stunServers cfg) @
     map (\<lambda>t. \<lparr>ice_urls = urls t, ice_username = Some (username t),
               ice_credential = Some (credential t)\<rparr>)
         (filter (\<lambda>t. credential t \<noteq> []) (turnServers cfg))"

definition login_route :: "Env \<Rightarrow> HttpRequest \<Rightarrow> ServerState \<Rightarrow> (nat \<times> HttpBody) \<times> ServerState" where
  "login_route E req st =
     (case req_body req of
        None \<Rightarrow> ((500, AuthBody (auth_failure ''Internal server error'')), st)
      | Some b \<Rightarrow>
          if \<not> truthy (b_email b) \<or> \<not> truthy (b_password b)
          then ((400, AuthBody (auth_failure ''Email and password required'')), st)
          else
            (case loginUser E (or_else (b_email b) []) (or_else (b_password b) []) (db st) of
               (res, d1) \<Rightarrow>
                 ((if success res then 200 else 401, AuthBody res), st\<lparr>db := d1\<rparr>)))"

definition register_route ::
  "Env \<Rightarrow> int \<Rightarrow> HttpRequest \<Rightarrow> ServerState \<Rightarrow> (nat \<times> HttpBody) \<times> ServerState" where
  "register_route E now req st =
     (case req_body req of
        None \<Rightarrow> ((500, AuthBody (auth_failure ''Internal server error'')), st)
      | Some b \<Rightarrow>
          if \<not> truthy (b_email b) \<or> \<not> truthy (b_username b) \<or> \<not> truthy (b_password b)
          then ((400, AuthBody (auth_failure ''Email, username, and password required'')), st)
          else
            (case registerUser E now (or_else (b_email b) []) (or_else (b_username b) [])
                    (or_else (b_password b) []) (db st) of
               (res, d1) \<Rightarrow>
                 ((if success res then 201 else 400, AuthBody res), st\<lparr>db := d1\<rparr>)))"

definition me_route :: "Env \<Rightarrow> HttpRequest \<Rightarrow> ServerState \<Rightarrow> (nat \<times> HttpBody) \<times> ServerState" where
  "me_route E req st =
     (let authHeader = or_else (req_authorization req) [] in
      if \<not> truthy (req_authorization req) \<or> take 7 authHeader \<noteq> ''Bearer ''
      then ((401, ErrorBody ''No token provided''), st)
      else
        (case verifyToken E (drop 7 authHeader) of
           None \<Rightarrow> ((401, ErrorBody ''Invalid or expired token''), st)
         | Some decoded \<Rightarrow>
             (case getUserById (jwt_userId decoded) (db st) of
                (None, d1) \<Rightarrow> ((404, ErrorBody ''User not found''), st\<lparr>db := d1\<rparr>)
              | (Some u, d1) \<Rightarrow> ((200, UserBody u), st\<lparr>db := d1\<rparr>))))"

text \<open>The request listener of \<open>createWSServer\<close>.\<close>

definition requestListener ::
  "Config \<Rightarrow> Env \<Rightarrow> int \<Rightarrow> HttpRequest \<Rightarrow> ServerState \<Rightarrow> HttpResponse \<times> ServerState" where
  "requestListener cfg E now req st =
     (let cors = cors_headers cfg req in
      if req_method req = ''OPTIONS''
      then (\<lparr>status = 204, headers = cors, body = NoBody\<rparr>, st)
      else if req_url req = ''/health''
      then (\<lparr>status = 200, headers = cors @ json_headers,
             body = HealthBody ''ok'' (length (clients st))\<rparr>, st)
      else if req_url req = ''/ice-servers''
      then (\<lparr>status = 200, headers = cors @ json_headers,
             body = IceServersBody (iceServers cfg)\<rparr>, st)
      else if req_url req = ''/auth/login'' \<and> req_method req = ''POST''
      then (case login_route E req st of
              ((code, b), st1) \<Rightarrow> (\<lparr>status = code, headers = cors @ json_headers, body = b\<rparr>, st1))
      else if req_url req = ''/auth/register'' \<and> req_method req = ''POST''
      then (case register_route E now req st of
              ((code, b), st1) \<Rightarrow> (\<lparr>status = code, headers = cors @ json_headers, body = b\<rparr>, st1))
      else if req_url req = ''/auth/me'' \<and> req_method req = ''GET''
      then (case me_route E req st of
              ((code, b), st1) \<Rightarrow> (\<lparr>status = code, headers = cors @ json_headers, body = b\<rparr>, st1))
      else (\<lparr>status = 404, headers = cors, body = TextBody ''Not found''\<rparr>, st))"

section \<open>Observing the frames written\<close>

text \<open>
  What \<open>send\<close> appends to \<open>outbox\<close>: the frame when the socket is open, nothing otherwise.
\<close>

definition written :: "ServerState \<Rightarrow> nat \<Rightarrow> WSMessage \<Rightarrow> (nat \<times> WSMessage) list" where
  "written st ws message = (if ws_open (heap st ws) then [(ws, message)] else [])"

section \<open>A concrete deployment\<close>

text \<open>
  Two users, Alice and Bob. Alice's machine \<open>M\<close> (``laptop'') is attached on channel 10
  and Bob's machine \<open>MB\<close> on channel 40; channels 20 and 50 are Alice's browsers and
  channel 30 is Bob's. Alice's browser on channel 20 has asked to connect to \<open>M\<close>: the
  pending connection \<open>C\<close> is waiting, its timer armed.
\<close>

definition env0 :: Env where
  "env0 = \<lparr>jwt_sign = (\<lambda>uid email. ''jwt:'' @ uid),
           jwt_verify = (\<lambda>t. if take 4 t = ''jwt:''
                               then Some \<lparr>jwt_userId = drop 4 t, jwt_email = []\<rparr> else None),
           bcrypt_hash = (\<lambda>pw. ''h:'' @ pw),
           bcrypt_compare = (\<lambda>pw h. h = ''h:'' @ pw),
           uuid_gen = (\<lambda>n. ''row-'' @ string_of_nat n),
           uuidv4 = (\<lambda>n. ''conn-'' @ string_of_nat n)\<rparr>"

definition caps0 :: MachineCapabilities where
  "caps0 = \<lparr>hasGit = True, hasNode = True, hasRust = False, hasPython = True\<rparr>"

definition row :: "string \<Rightarrow> string \<Rightarrow> string \<Rightarrow> int \<Rightarrow> bool \<Rightarrow> DBMachine" where
  "row i u n seen online =
     \<lparr>m_id = i, m_user_id = u, m_name = n, m_platform = ''linux'', m_last_seen = seen,
      m_is_online = online, m_capabilities = caps0, m_created_at = 0\<rparr>"

definition account :: "string \<Rightarrow> string \<Rightarrow> DBUser" where
  "account i email =
     \<lparr>u_id = i, u_email = email, u_username = i, u_password_hash = ''h:pw'',
      u_created_at = 0, u_updated_at = 0\<rparr>"

definition chan :: "bool \<Rightarrow> string option \<Rightarrow> string option \<Rightarrow> ConnectedClient" where
  "chan opn u m =
     \<lparr>ws_open = opn, userId = u, machineId = m, authenticated = (u \<noteq> None), lastHeartbeat = 0\<rparr>"

definition db0 :: DB where
  "db0 = \<lparr>users = [account ''alice'' ''a@x'', account ''bob'' ''b@x''],
          machines = [row ''M'' ''alice'' ''laptop'' 0 True, row ''MB'' ''bob'' ''desk'' 0 True],
          faults = [], uuid_next = 4\<rparr>"

definition pending0 :: PendingConnection where
  "pending0 = \<lparr>p_id = ''C'', fromMachineId = None, fromClientId = ''web-client-1'',
               toMachineId = ''M'', fromClient = 20, createdAt = 0\<rparr>"

definition heap0 :: "nat \<Rightarrow> ConnectedClient" where
  "heap0 = (\<lambda>_. chan False None None)
             (10 := chan True (Some ''alice'') (Some ''M''),
              20 := chan True (Some ''alice'') None,
              30 := chan True (Some ''bob'') None,
              40 := chan True (Some ''bob'') (Some ''MB''),
              50 := chan True (Some ''alice'') None)"

definition st0 :: ServerState where
  "st0 = \<lparr>heap = heap0, next_ref = 51, clients = [10, 20, 30, 40, 50],
          machineClients = [(''M'', 10), (''MB'', 40)],
          webClients = [''web-client-1'' \<mapsto> 20], webClientCounter = 1,
          pendingConnections = [''C'' \<mapsto> pending0],
          timers = [\<lparr>t_connectionId = ''C'', t_clientId = ''web-client-1'', t_client = 20,
                     t_due = 30000\<rparr>],
          db = db0, uuid_drawn = 1, outbox = []\<rparr>"

definition cfg0 :: Config where
  "cfg0 = \<lparr>allowedOrigins = [''http://localhost:1420''], heartbeatInterval = 30000,
           heartbeatTimeout = 90000,
           stunServers = [''stun:app.rcmedicalspecialist.com:3478'', ''stun:stun.l.google.com:19302''],
           turnServers = [\<lparr>urls = ''turn:app.rcmedicalspecialist.com:3478'', username = ''rcms'',
                           credential = ''secret''\<rparr>,
                          \<lparr>urls = ''turns:app.rcmedicalspecialist.com:443'', username = ''rcms'',
                           credential = []\<rparr>]\<rparr>"

definition get_ice :: HttpRequest where
  "get_ice = \<lparr>req_method = ''GET'', req_url = ''/ice-servers'', req_origin = None,
              req_authorization = None, req_body = None\<rparr>"

definition db_sweep :: DB where
  "db_sweep = \<lparr>users = [], machines = [row ''m1'' ''u1'' ''laptop'' 1000 True,
       row ''m2'' ''u1'' ''desk'' 50000 True, row ''m3'' ''u2'' ''old'' 0 False],
     faults = [], uuid_next = 0\<rparr>"

text \<open>
  Alice's \<open>laptop\<close> registers again, from channel 50, while channel 10 is still open.
\<close>

definition laptop_again :: RegisterMachinePayload where
  "laptop_again = \<lparr>rm_name = ''laptop'', rm_platform = ''linux'', rm_capabilities = caps0\<rparr>"

definition st_rereg :: ServerState where
  "st_rereg = handleRegisterMachine env0 2000 50 laptop_again None st0"

definition db1 :: DB where
  "db1 = db0\<lparr>machines := [row ''M'' ''alice'' ''laptop'' 2000 True,
                                 row ''MB'' ''bob'' ''desk'' 0 True]\<rparr>"

definition st_mid :: ServerState where
  "st_mid = st0\<lparr>heap := heap0(50 := chan True (Some ''alice'') (Some ''M'')),
         machineClients := [(''M'', 50), (''MB'', 40)], db := db1\<rparr>"

text \<open>The same state with a store that rejects its next statement.\<close>

definition st_rereg_rejecting :: ServerState where
  "st_rereg_rejecting = st_rereg\<lparr>db := db1\<lparr>faults := [True]\<rparr>\<rparr>"

section \<open>Participants of a pending connection, as the specification words it\<close>

text \<open>
  The sender is a participant of \<open>p\<close> when it is the originator, by reference or by
  an id equal to the originator's id, or the target machine. This predicate is
  written from the specification, to be compared with the check \<open>handleRTCOffer\<close> makes.
\<close>

definition spec_participant :: "ServerState \<Rightarrow> nat \<Rightarrow> PendingConnection \<Rightarrow> bool" where
  "spec_participant st c p =
     (fromClient p = c \<or> machineId (heap st c) = Some (fromClientId p) \<or>
      machineId (heap st c) = Some (toMachineId p))"

definition answer_C :: RTCPayload where
  "answer_C = \<lparr>connectionId = ''C'', targetMachineId = ''web-client-1'', sdp = ''v=0''\<rparr>"

definition offer_C :: RTCPayload where
  "offer_C = \<lparr>connectionId = ''C'', targetMachineId = ''M'', sdp = ''v=0''\<rparr>"

section \<open>The events of the process\<close>

text \<open>
  What the process reacts to: a new socket, a frame on a socket (\<open>None\<close> when it is not
  JSON), the close of a socket, the periodic heartbeat check, the timers that are due,
  and an HTTP request.
\<close>

datatype Event =
    Connection
  | Message nat "Inbound option"
  | Close nat
  | HeartbeatCheck
  | TimersDue
  | HttpRequest HttpRequest

definition step :: "Config \<Rightarrow> Env \<Rightarrow> int \<Rightarrow> Event \<Rightarrow> ServerState \<Rightarrow> ServerState" where
  "step cfg E now ev st =
     (case ev of
        Connection \<Rightarrow> onConnection now st
      | Message client data \<Rightarrow> onMessage E now client data st
      | Close client \<Rightarrow> onClose now client st
      | HeartbeatCheck \<Rightarrow> snd (heartbeatCheck cfg now st)
      | TimersDue \<Rightarrow> runTimers now st
      | HttpRequest req \<Rightarrow> snd (requestListener cfg E now req st))"

text \<open>The pending connection that Alice's browser on channel 50 creates at instant 1000.\<close>

definition pending1 :: PendingConnection where
  "pending1 = \<lparr>p_id = ''conn-1'', fromMachineId = None, fromClientId = ''web-client-2'',
               toMachineId = ''M'', fromClient = 50, createdAt = 1000\<rparr>"

section \<open>The shape of what one handling writes\<close>

text \<open>
  Frames without correlation id, frames that are not errors, and the shape of the
  frames one handling appends: either none of them carries an id, or only the last may
  and none is an error. \<open>appended P old new\<close> says that \<open>new\<close> is \<open>old\<close> followed by
  frames satisfying \<open>P\<close>.
\<close>

definition idless :: "(nat \<times> WSMessage) list \<Rightarrow> bool" where
  "idless fs = (\<forall>(w, f) \<in> set fs. msg_id f = None)"

definition errorfree :: "(nat \<times> WSMessage) list \<Rightarrow> bool" where
  "errorfree fs = (\<forall>(w, f) \<in> set fs. msg_type f \<noteq> T_error)"

definition reply_shape :: "(nat \<times> WSMessage) list \<Rightarrow> bool" where
  "reply_shape fs = (idless fs \<or> (idless (butlast fs) \<and> errorfree fs))"

definition appended ::
  "((nat \<times> WSMessage) list \<Rightarrow> bool) \<Rightarrow> (nat \<times> WSMessage) list \<Rightarrow> (nat \<times> WSMessage) list \<Rightarrow> bool" where
  "appended P old new = (\<exists>fs. new = old @ fs \<and> P fs)"

text \<open>A \<open>list_machines\<close> request with correlation id \<open>req-7\<close>.\<close>

definition list_request :: Inbound where
  "list_request = \<lparr>in_id = Some ''req-7'', in_request = List_machines\<rparr>"

section \<open>A run of heartbeats\<close>

text \<open>
  \<open>heartbeats E c ts\<close> delivers one \<open>heartbeat\<close> frame on channel \<open>c\<close> at each instant of
  \<open>ts\<close>, in order. \<open>refresh mid t\<close> is what \<open>updateMachineHeartbeat\<close> does to the rows for a
  channel whose \<open>machineId\<close> is \<open>mid\<close>.
\<close>

fun heartbeats :: "Env \<Rightarrow> nat \<Rightarrow> int list \<Rightarrow> ServerState \<Rightarrow> ServerState" where
  "heartbeats E c [] st = st"
| "heartbeats E c (t # ts) st = heartbeats E c ts (onMessage E t c (Some \<lparr>in_id = None, in_request = Heartbeat\<rparr>) st)"

definition refresh :: "string option \<Rightarrow> int \<Rightarrow> DBMachine list \<Rightarrow> DBMachine list" where
  "refresh mid t rows =
     (if truthy mid then map (\<lambda>r. if Some (m_id r) = mid then r\<lparr>m_last_seen := t\<rparr> else r) rows
      else rows)"

definition heartbeat_ack :: WSMessage where
  "heartbeat_ack = \<lparr>msg_type = T_heartbeat_ack, msg_id = None, payload = HeartbeatAckP\<rparr>"

text \<open>
  The store rejects the refresh that a heartbeat on channel \<open>c\<close> asks for.
\<close>

definition refresh_rejected :: "int \<Rightarrow> nat \<Rightarrow> ServerState \<Rightarrow> bool" where
  "refresh_rejected now c st =
     (truthy (machineId (heap st c)) \<and>
      fst (updateMachineHeartbeat now (or_else (machineId (heap st c)) []) (db st)) = Threw)"

text \<open>
  What a run of heartbeats on channel \<open>c\<close> may change between two states: the
  \<open>lastHeartbeat\<close> of \<open>c\<close>, the \<open>last_seen\<close> of the rows of the machine of \<open>c\<close>, the fault
  bookkeeping of the store, and \<open>outbox\<close>, which grows by \<open>heartbeat_ack\<close> and
  \<open>INVALID_MESSAGE\<close> frames for \<open>c\<close>. Everything else is the same.
\<close>

definition heartbeat_changes_only :: "nat \<Rightarrow> ServerState \<Rightarrow> ServerState \<Rightarrow> bool" where
  "heartbeat_changes_only c st st' =
     (st'\<lparr>heap := heap st, db := db st, outbox := outbox st\<rparr> = st \<and>
      (\<exists>t. heap st' = (heap st)(c := (heap st c)\<lparr>lastHeartbeat := t\<rparr>)) \<and>
      users (db st') = users (db st) \<and>
      uuid_next (db st') = uuid_next (db st) \<and>
      list_all2 (\<lambda>r r'. r' = r \<or>
                   (Some (m_id r) = machineId (heap st c) \<and> (\<exists>t. r' = r\<lparr>m_last_seen := t\<rparr>)))
        (machines (db st)) (machines (db st')) \<and>
      (\<exists>fs. outbox st' = outbox st @ fs \<and>
            set fs \<subseteq> {(c, heartbeat_ack),
                      (c, error_frame ''INVALID_MESSAGE'' ''Invalid message format'')}))"

definition heartbeat_frame :: "string option \<Rightarrow> Inbound" where
  "heartbeat_frame mid = \<lparr>in_id = mid, in_request = Heartbeat\<rparr>"

text \<open>The deployment with a store that rejects its next statement.\<close>

definition st0_rejecting :: ServerState where
  "st0_rejecting = st0\<lparr>db := db0\<lparr>faults := [True]\<rparr>\<rparr>"

section \<open>Auxiliary facts\<close>

lemma query_Ok:
  "query stmt d = (Ok r, d') \<Longrightarrow>
     \<exists>d0. stmt d0 = (Ok r, d') \<and> users d0 = users d \<and> machines d0 = machines d \<and>
          uuid_next d0 = uuid_next d"
  by (auto simp: query_def split: list.splits if_splits)

lemma send_written: "send ws m st = st\<lparr>outbox := outbox st @ written st ws m\<rparr>"
  by (simp add: send_def written_def)

lemma sendError_written:
  "sendError ws code msg st = st\<lparr>outbox := outbox st @ written st ws (error_frame code msg)\<rparr>"
  by (simp add: sendError_def send_written)

lemma written_cong [simp]:
  "written (st\<lparr>outbox := x\<rparr>) = written st"
  "written (st\<lparr>db := d\<rparr>) = written st"
  "written (st\<lparr>pendingConnections := p\<rparr>) = written st"
  "written (st\<lparr>webClients := w\<rparr>) = written st"
  "written (st\<lparr>webClientCounter := n\<rparr>) = written st"
  "written (st\<lparr>machineClients := mc\<rparr>) = written st"
  "written (st\<lparr>timers := ts\<rparr>) = written st"
  "written (st\<lparr>uuid_drawn := n\<rparr>) = written st"
  "written (st\<lparr>clients := cs\<rparr>) = written st"
  by (simp_all add: written_def fun_eq_iff)

lemma query_unfold:
  "query stmt d =
     (if (case faults d of [] \<Rightarrow> False | b # _ \<Rightarrow> b) then (Threw, d\<lparr>faults := tl (faults d)\<rparr>)
      else stmt (d\<lparr>faults := tl (faults d)\<rparr>))"
proof (cases "faults d")
  case Nil
  then have e: "d\<lparr>faults := []\<rparr> = d" by (cases d) simp
  have "query stmt d = stmt d" by (simp add: query_def Nil)
  then show ?thesis by (simp add: Nil e)
next
  case Cons
  then show ?thesis by (simp add: query_def)
qed

lemma getMachineById_tables:
  "getMachineById mid d = (r, d') \<Longrightarrow>
     machines d' = machines d \<and> users d' = users d \<and> uuid_next d' = uuid_next d"
  by (auto simp: getMachineById_def query_unfold select_machine_by_id_def
           split: if_splits list.splits)

lemma fold_send_frame:
  "\<exists>fs. fold (\<lambda>(k, client) s. if P s client then send client (msg k client) s else s) xs st
          = st\<lparr>outbox := outbox st @ fs\<rparr> \<and>
        (\<forall>(w, f) \<in> set fs. \<exists>k. f = msg k w)"
proof (induction xs arbitrary: st)
  case Nil
  show ?case by (rule exI [of _ "[]"]) simp
next
  case (Cons x xs)
  obtain k client where x: "x = (k, client)" by (cases x)
  let ?s = "if P st client then send client (msg k client) st else st"
  have "\<exists>gs. ?s = st\<lparr>outbox := outbox st @ gs\<rparr> \<and> (\<forall>(w, f) \<in> set gs. \<exists>k. f = msg k w)"
  proof (cases "P st client \<and> ws_open (heap st client)")
    case True
    then show ?thesis
      by (intro exI [of _ "[(client, msg k client)]"]) (auto simp: send_def)
  next
    case False
    then show ?thesis
      by (intro exI [of _ "[]"]) (auto simp: send_def)
  qed
  then obtain gs where gs: "?s = st\<lparr>outbox := outbox st @ gs\<rparr>" "\<forall>(w, f) \<in> set gs. \<exists>k. f = msg k w"
    by blast
  from Cons.IH [of ?s] obtain fs where
    fs: "fold (\<lambda>(k, client) s. if P s client then send client (msg k client) s else s) xs ?s
           = ?s\<lparr>outbox := outbox ?s @ fs\<rparr>" "\<forall>(w, f) \<in> set fs. \<exists>k. f = msg k w"
    by blast
  show ?case
    apply (rule exI [of _ "gs @ fs"])
    using gs fs x by auto
qed

lemma broadcast_frame:
  assumes "broadcastMachineStatus mid isOnline ex st = (oc, st')"
  shows "\<exists>fs d'. st' = st\<lparr>db := d', outbox := outbox st @ fs\<rparr> \<and>
           machines d' = machines (db st) \<and> users d' = users (db st) \<and>
           (\<forall>(w, f) \<in> set fs. msg_id f = None \<and> msg_type f \<noteq> T_error)"
proof (cases "getMachineById mid (db st)")
  case (Pair r d1)
  note tabs = getMachineById_tables [OF Pair]
  show ?thesis
  proof (cases r)
    case Threw
    with Pair assms tabs show ?thesis
      by (auto simp: broadcastMachineStatus_def intro!: exI [of _ "[]"] exI [of _ d1])
  next
    case (Ok mo)
    show ?thesis
    proof (cases mo)
      case None
      with Ok Pair assms tabs show ?thesis
        by (auto simp: broadcastMachineStatus_def intro!: exI [of _ "[]"] exI [of _ d1])
    next
      case (Some machine)
      let ?P = "\<lambda>s client. userId (heap s client) = Some (m_user_id machine) \<and> Some client \<noteq> ex"
      let ?msg = "\<lambda>(k::string) (w::nat). machine_status isOnline mid (m_name machine)"
      from fold_send_frame [of ?P ?msg "machineClients st" "st\<lparr>db := d1\<rparr>"]
      obtain fs where fs:
        "fold (\<lambda>(k, client) s. if ?P s client then send client (?msg k client) s else s)
           (machineClients st) (st\<lparr>db := d1\<rparr>) = st\<lparr>db := d1, outbox := outbox st @ fs\<rparr>"
        "\<forall>(w, f) \<in> set fs. \<exists>k. f = ?msg k w"
        by auto
      have "st' = st\<lparr>db := d1, outbox := outbox st @ fs\<rparr>"
        using assms Pair Ok Some fs(1) by (simp add: broadcastMachineStatus_def)
      moreover have "\<forall>(w, f) \<in> set fs. msg_id f = None \<and> msg_type f \<noteq> T_error"
        using fs(2) by (auto simp: machine_status_def split: if_splits)
      ultimately show ?thesis using tabs by blast
    qed
  qed
qed

lemma st0_fields [simp]:
  "heap st0 = heap0" "machineClients st0 = [(''M'', 10), (''MB'', 40)]"
  "webClients st0 = [''web-client-1'' \<mapsto> 20]" "pendingConnections st0 = [''C'' \<mapsto> pending0]"
  "db st0 = db0" "outbox st0 = []" "webClientCounter st0 = 1" "clients st0 = [10, 20, 30, 40, 50]"
  "timers st0 = [\<lparr>t_connectionId = ''C'', t_clientId = ''web-client-1'', t_client = 20,
                     t_due = 30000\<rparr>]"
  by (simp_all add: st0_def)

lemma heap0_at [simp]:
  "heap0 10 = chan True (Some ''alice'') (Some ''M'')"
  "heap0 20 = chan True (Some ''alice'') None"
  "heap0 30 = chan True (Some ''bob'') None"
  "heap0 40 = chan True (Some ''bob'') (Some ''MB'')"
  "heap0 50 = chan True (Some ''alice'') None"
  by (simp_all add: heap0_def)

lemma chan_fields [simp]:
  "ws_open (chan opn u m) = opn" "userId (chan opn u m) = u" "machineId (chan opn u m) = m"
  "authenticated (chan opn u m) = (u \<noteq> None)" "lastHeartbeat (chan opn u m) = 0"
  by (simp_all add: chan_def)

lemma db0_fields [simp]:
  "users db0 = [account ''alice'' ''a@x'', account ''bob'' ''b@x'']"
  "machines db0 = [row ''M'' ''alice'' ''laptop'' 0 True, row ''MB'' ''bob'' ''desk'' 0 True]"
  "faults db0 = []" "uuid_next db0 = 4"
  by (simp_all add: db0_def)

lemma row_fields [simp]:
  "m_id (row i u n seen online) = i" "m_user_id (row i u n seen online) = u"
  "m_name (row i u n seen online) = n" "m_last_seen (row i u n seen online) = seen"
  "m_is_online (row i u n seen online) = online"
  by (simp_all add: row_def)

lemma bob_has_no_access: "canUserAccessMachine ''bob'' ''M'' db0 = (Ok False, db0)"
  by (simp add: canUserAccessMachine_def query_def select_owned_def)

lemma registerMachine_laptop_again: "registerMachine env0 2000 ''alice'' ''laptop'' ''linux'' caps0 db0 =
   (Ok (row ''M'' ''alice'' ''laptop'' 2000 True), db1)"
  by (simp add: registerMachine_def query_def upsert_machine_def account_def Let_def row_def db1_def)

lemma getMachineById_M: "machines d = [row ''M'' ''alice'' ''laptop'' t b, row ''MB'' ''bob'' ''desk'' 0 True] \<Longrightarrow>
   faults d = [] \<Longrightarrow> getMachineById ''M'' d = (Ok (Some (row ''M'' ''alice'' ''laptop'' t b)), d)"
  by (simp add: getMachineById_def query_def select_machine_by_id_def)

lemma db1_fields [simp]:
  "machines db1 = [row ''M'' ''alice'' ''laptop'' 2000 True, row ''MB'' ''bob'' ''desk'' 0 True]"
  "faults db1 = []" "users db1 = users db0"
  by (simp_all add: db1_def)

lemma st_mid_fields [simp]:
  "heap st_mid = heap0(50 := chan True (Some ''alice'') (Some ''M''))"
  "machineClients st_mid = [(''M'', 50), (''MB'', 40)]" "db st_mid = db1" "outbox st_mid = []"
  by (simp_all add: st_mid_def)

lemma broadcast_online_reaches_nobody: "broadcastMachineStatus ''M'' True (Some 50) st_mid = (Returned, st_mid)"
proof -
  have "st_mid\<lparr>db := db1\<rparr> = st_mid" by (simp add: st_mid_def)
  then show ?thesis
    by (simp add: broadcastMachineStatus_def getMachineById_M)
qed

lemma chan_upd: "(chan opn u m)\<lparr>machineId := m'\<rparr> = chan opn u m'"
  by (simp add: chan_def)

lemma registerMachine_try_laptop_again: "registerMachine_try env0 2000 50 ''alice'' laptop_again None st0 =
   (Returned, st_mid\<lparr>outbox := [(50, \<lparr>msg_type = T_machine_registered, msg_id = None,
                          payload = MachineRegisteredP ''M'' ''laptop''\<rparr>)]\<rparr>)"
proof -
  have a: "registerMachineClient ''M'' 50
            (st0\<lparr>db := db1, heap := heap0(50 := chan True (Some ''alice'') (Some ''M''))\<rparr>) = st_mid"
    by (simp add: registerMachineClient_def st_mid_def st0_def)
  show ?thesis
    by (simp add: registerMachine_try_def laptop_again_def registerMachine_laptop_again chan_upd a broadcast_online_reaches_nobody send_def)
qed

lemma st_rereg_eq:
  "st_rereg = st_mid\<lparr>outbox := [(50, \<lparr>msg_type = T_machine_registered, msg_id = None,
                          payload = MachineRegisteredP ''M'' ''laptop''\<rparr>)]\<rparr>"
  by (simp add: st_rereg_def handleRegisterMachine_def truthy_def or_else_def registerMachine_try_laptop_again)

lemma disconnect_old_channel: "handleDisconnect 3000 10 st_rereg =
     (Returned,
      st_rereg\<lparr>machineClients := [(''MB'', 40)],
               db := db0\<lparr>machines := [row ''M'' ''alice'' ''laptop'' 3000 False,
                                       row ''MB'' ''bob'' ''desk'' 0 True]\<rparr>\<rparr>)"
proof -
  let ?d = "db0\<lparr>machines := [row ''M'' ''alice'' ''laptop'' 3000 False,
                                       row ''MB'' ''bob'' ''desk'' 0 True]\<rparr>"
  have u: "updateMachineOnlineStatus 3000 ''M'' False db1 = (Ok (), ?d)"
    by (simp add: updateMachineOnlineStatus_def query_def update_online_status_def row_def db1_def)
  have g: "getMachineById ''M'' ?d = (Ok (Some (row ''M'' ''alice'' ''laptop'' 3000 False)), ?d)"
    by (rule getMachineById_M) simp_all
  show ?thesis
    by (simp add: st_rereg_eq handleDisconnect_def truthy_def or_else_def Let_def
          unregisterMachineClient_def AList.delete_eq u broadcastMachineStatus_def g send_def)
qed

lemma handleDisconnect_attached:
  assumes "machineId (heap st c) = Some m" and "m \<noteq> []"
  shows "handleDisconnect now c st =
           (case updateMachineOnlineStatus now m False (db st) of
              (Threw, d1) \<Rightarrow> (Thrown, unregisterMachineClient m st\<lparr>db := d1\<rparr>)
            | (Ok _, d1) \<Rightarrow>
                broadcastMachineStatus m False None (unregisterMachineClient m st\<lparr>db := d1\<rparr>))"
proof -
  have t: "truthy (machineId (heap st c))" "or_else (machineId (heap st c)) [] = m"
    using assms by (simp_all add: truthy_def or_else_def)
  have d: "db (unregisterMachineClient m st) = db st"
    by (simp add: unregisterMachineClient_def)
  show ?thesis
    by (simp add: handleDisconnect_def Let_def t d)
qed

lemma updateMachineOnlineStatus_Ok:
  assumes "updateMachineOnlineStatus now m b d = (Ok x, d1)"
  shows "machines d1 =
           map (\<lambda>r. if m_id r = m then r\<lparr>m_is_online := b, m_last_seen := now\<rparr> else r) (machines d) \<and>
         users d1 = users d"
proof -
  from assms obtain d0 where "update_online_status now m b d0 = (Ok x, d1)"
    "machines d0 = machines d" "users d0 = users d"
    unfolding updateMachineOnlineStatus_def by (blast dest: query_Ok)
  then show ?thesis by (auto simp: update_online_status_def)
qed

lemma handleRTCAnswer_resolved:
  assumes "pendingConnections st (connectionId pl) = Some p"
      and "getClientById (targetMachineId pl) st = Some t"
  shows "handleRTCAnswer c pl st =
           st\<lparr>outbox := outbox st @
                 written st t \<lparr>msg_type = T_rtc_answer, msg_id = None,
                               payload = RTCAnswerP (connectionId pl)
                                 (or_else (machineId (heap st c)) (toMachineId p)) (sdp pl)\<rparr>,
              webClients := (if fromClientId p \<noteq> [] \<and> \<not> truthy (fromMachineId p)
                             then (webClients st)(fromClientId p := None) else webClients st),
              pendingConnections := (pendingConnections st)(connectionId pl := None)\<rparr>"
  using assms
  by (auto simp add: handleRTCAnswer_def send_written Let_def)

lemma pending_send [simp]: "pendingConnections (send w m st) = pendingConnections st"
  by (simp add: send_def)

lemma pending_sendError [simp]: "pendingConnections (sendError w c m st) = pendingConnections st"
  by (simp add: sendError_def)

lemma pending_broadcast:
  "broadcastMachineStatus mid b ex st = (oc, st') \<Longrightarrow> pendingConnections st' = pendingConnections st"
  by (drule broadcast_frame) auto

lemma pending_set_authenticated [simp]:
  "pendingConnections (set_authenticated c u st) = pendingConnections st"
  by (simp add: set_authenticated_def)

lemma authenticate_frame:
  "authenticate E c pl st = (response, st1) \<Longrightarrow>
     pendingConnections st1 = pendingConnections st \<and> outbox st1 = outbox st \<and>
     ws_open (heap st1 c) = ws_open (heap st c)"
  by (auto simp: authenticate_def set_authenticated_def split: if_splits prod.splits option.splits)

lemma pending_handleAuth: "pendingConnections (handleAuth E c pl mid st) = pendingConnections st"
  by (auto simp: handleAuth_def dest: authenticate_frame split: prod.splits)

lemma pending_handleRegisterUser:
  "pendingConnections (handleRegisterUser E now c pl mid st) = pendingConnections st"
  by (simp add: handleRegisterUser_def Let_def split: prod.splits option.splits)

lemma pending_registerMachine_try:
  assumes "registerMachine_try E now c uid pl mid st = (oc, st')"
  shows "pendingConnections st' = pendingConnections st"
proof (cases "registerMachine E now uid (rm_name pl) (rm_platform pl) (rm_capabilities pl) (db st)")
  case (Pair r d1)
  show ?thesis
  proof (cases r)
    case Threw
    with Pair assms show ?thesis by (auto simp: registerMachine_try_def)
  next
    case (Ok machine)
    let ?st2 = "registerMachineClient (m_id machine) c
                  (st\<lparr>db := d1, heap := (heap st)(c := (heap st c)\<lparr>machineId := Some (m_id machine)\<rparr>)\<rparr>)"
    obtain oc3 st3 where b: "broadcastMachineStatus (m_id machine) True (Some c) ?st2 = (oc3, st3)"
      by (cases "broadcastMachineStatus (m_id machine) True (Some c) ?st2")
    from pending_broadcast [OF b] have "pendingConnections st3 = pendingConnections st"
      by (simp add: registerMachineClient_def)
    moreover from assms Pair Ok b have "st' = st3 \<or>
        st' = send c \<lparr>msg_type = T_machine_registered, msg_id = mid,
                      payload = MachineRegisteredP (m_id machine) (m_name machine)\<rparr> st3"
      by (cases oc3) (auto simp: registerMachine_try_def Let_def)
    ultimately show ?thesis by auto
  qed
qed

lemma pending_handleRegisterMachine:
  "pendingConnections (handleRegisterMachine E now c pl mid st) = pendingConnections st"
proof (cases "registerMachine_try E now c (or_else (userId (heap st c)) []) pl mid st")
  case (Pair oc st1)
  from pending_registerMachine_try [OF Pair] Pair show ?thesis
    by (cases oc) (simp_all add: handleRegisterMachine_def)
qed

lemma pending_handleDisconnect:
  assumes "handleDisconnect now c st = (oc, st')"
  shows "pendingConnections st' = pendingConnections st"
proof (cases "truthy (machineId (heap st c))")
  case False
  with assms show ?thesis by (simp add: handleDisconnect_def)
next
  case True
  let ?m = "or_else (machineId (heap st c)) []"
  let ?st1 = "unregisterMachineClient ?m st"
  obtain r d1 where u: "updateMachineOnlineStatus now ?m False (db ?st1) = (r, d1)"
    by (cases "updateMachineOnlineStatus now ?m False (db ?st1)")
  show ?thesis
  proof (cases r)
    case Threw
    with assms True u show ?thesis
      by (auto simp: handleDisconnect_def Let_def unregisterMachineClient_def)
  next
    case (Ok x)
    with assms True u have "broadcastMachineStatus ?m False None (?st1\<lparr>db := d1\<rparr>) = (oc, st')"
      by (simp add: handleDisconnect_def Let_def)
    from pending_broadcast [OF this] show ?thesis
      by (simp add: unregisterMachineClient_def)
  qed
qed

lemma pending_onClose: "pendingConnections (onClose now c st) = pendingConnections st"
proof -
  let ?st0 = "st\<lparr>heap := (heap st)(c := (heap st c)\<lparr>ws_open := False\<rparr>)\<rparr>"
  obtain oc st1 where h: "handleDisconnect now c ?st0 = (oc, st1)"
    by (cases "handleDisconnect now c ?st0")
  from pending_handleDisconnect [OF h] h show ?thesis
    by (cases oc) (simp_all add: onClose_def Let_def)
qed

lemma pending_onConnection: "pendingConnections (onConnection now st) = pendingConnections st"
  by (simp add: onConnection_def Let_def)

lemma pending_closeStale_fold:
  "pendingConnections (fold (closeStale cfg now) cs st) = pendingConnections st"
  by (induction cs arbitrary: st) (simp_all add: closeStale_def Let_def)

lemma pending_broadcastOffline:
  "broadcastOffline mids st = (oc, st') \<Longrightarrow> pendingConnections st' = pendingConnections st"
proof (induction mids arbitrary: st)
  case Nil
  then show ?case by simp
next
  case (Cons m mids)
  obtain oc1 st1 where b: "broadcastMachineStatus m False None st = (oc1, st1)"
    by (cases "broadcastMachineStatus m False None st")
  note p = pending_broadcast [OF b]
  show ?case
  proof (cases oc1)
    case Thrown
    with Cons.prems b p show ?thesis by simp
  next
    case Returned
    with Cons.prems b have "broadcastOffline mids st1 = (oc, st')" by simp
    from Cons.IH [OF this] p show ?thesis by simp
  qed
qed

lemma pending_heartbeatCheck:
  "pendingConnections (snd (heartbeatCheck cfg now st)) = pendingConnections st"
proof -
  let ?st1 = "fold (closeStale cfg now) (clients st) st"
  obtain r d1 where m: "markStaleOffline now (heartbeatTimeout cfg) (db ?st1) = (r, d1)"
    by (cases "markStaleOffline now (heartbeatTimeout cfg) (db ?st1)")
  show ?thesis
  proof (cases r)
    case Threw
    with m show ?thesis by (simp add: heartbeatCheck_def Let_def pending_closeStale_fold)
  next
    case (Ok ids)
    obtain oc st' where b: "broadcastOffline ids (?st1\<lparr>db := d1\<rparr>) = (oc, st')"
      by (cases "broadcastOffline ids (?st1\<lparr>db := d1\<rparr>)")
    from pending_broadcastOffline [OF b] m Ok b show ?thesis
      by (simp add: heartbeatCheck_def Let_def pending_closeStale_fold)
  qed
qed

lemma pending_requestListener:
  "pendingConnections (snd (requestListener cfg E now req st)) = pendingConnections st"
  by (simp add: requestListener_def login_route_def register_route_def me_route_def Let_def
        split: prod.splits option.splits)

lemma pending_createPending:
  "pendingConnections (createPending E now c tgt tc cid nm st) =
     (pendingConnections st)(uuidv4 E (uuid_drawn st) \<mapsto>
        \<lparr>p_id = uuidv4 E (uuid_drawn st), fromMachineId = machineId (heap st c),
         fromClientId = cid, toMachineId = tgt, fromClient = c, createdAt = now\<rparr>)"
  by (simp add: createPending_def Let_def)

lemma timers_createPending:
  "timers (createPending E now c tgt tc cid nm st) =
     timers st @ [\<lparr>t_connectionId = uuidv4 E (uuid_drawn st), t_clientId = cid, t_client = c,
                   t_due = now + 30000\<rparr>]"
  by (simp add: createPending_def Let_def send_def)

lemma pending_handleConnectToMachine:
  assumes "pendingConnections st k = Some p"
  shows "pendingConnections (snd (handleConnectToMachine E now c tgt st)) k \<noteq> None"
  using assms
  by (auto simp: handleConnectToMachine_def Let_def pending_createPending
        split: prod.splits result.splits option.splits)

lemma pending_connectionTimeout:
  "pendingConnections (connectionTimeout t st) = (pendingConnections st)(t_connectionId t := None)"
  by (auto simp: connectionTimeout_def Let_def sendError_def send_def fun_eq_iff)

lemma pending_fold_connectionTimeout:
  "pendingConnections (fold connectionTimeout ts st) k =
     (if k \<in> t_connectionId ` set ts then None else pendingConnections st k)"
  by (induction ts arbitrary: st) (auto simp: pending_connectionTimeout)

lemma pending_runTimers:
  "pendingConnections (runTimers now st) k =
     (if \<exists>t \<in> set (timers st). t_due t \<le> now \<and> t_connectionId t = k then None
      else pendingConnections st k)"
  by (auto simp: runTimers_def pending_fold_connectionTimeout)

lemma pending_handleConnectionAccepted:
  "pendingConnections (handleConnectionAccepted c cid st) = pendingConnections st"
  by (simp add: handleConnectionAccepted_def split: option.splits)

lemma pending_handleConnectionRejected:
  "pendingConnections (handleConnectionRejected c cid reason st) =
     (case pendingConnections st cid of
        None \<Rightarrow> pendingConnections st
      | Some p \<Rightarrow> if machineId (heap st c) = Some (toMachineId p)
                  then (pendingConnections st)(cid := None) else pendingConnections st)"
  by (simp add: handleConnectionRejected_def Let_def split: option.splits)

lemma pending_handleRTCOffer:
  "pendingConnections (handleRTCOffer c pl st) = pendingConnections st"
  by (simp add: handleRTCOffer_def Let_def split: option.splits)

lemma pending_handleRTCAnswer:
  "pendingConnections (handleRTCAnswer c pl st) =
     (if pendingConnections st (connectionId pl) \<noteq> None \<and>
         getClientById (targetMachineId pl) st \<noteq> None
      then (pendingConnections st)(connectionId pl := None) else pendingConnections st)"
  by (auto simp: handleRTCAnswer_def Let_def split: option.splits)

lemma pending_handleRTCIceCandidate:
  "pendingConnections (handleRTCIceCandidate c pl st) = pendingConnections st"
  by (simp add: handleRTCIceCandidate_def Let_def split: option.splits)

lemma pending_handleMessage_other:
  assumes "\<And>pl. req \<noteq> Rtc_answer pl" and "\<And>cid reason. req \<noteq> Connection_rejected cid reason"
      and "pendingConnections st k = Some p"
  shows "pendingConnections (snd (handleMessage E now c mid req st)) k \<noteq> None"
proof (cases req)
  case (Connect_to_machine tgt)
  with pending_handleConnectToMachine [OF assms(3), of E now c tgt] assms(3) show ?thesis
    by (simp add: not_authenticated_def)
next
  case Heartbeat
  with assms(3) show ?thesis
    by (simp add: Let_def split: prod.splits result.splits)
next
  case List_machines
  with assms(3) show ?thesis
    by (simp add: not_authenticated_def split: prod.splits result.splits)
next
  case (Delete_machine x)
  with assms(3) show ?thesis
    by (simp add: not_authenticated_def split: prod.splits result.splits)
next
  case (Rename_machine x y)
  with assms(3) show ?thesis
    by (simp add: not_authenticated_def split: prod.splits result.splits)
qed (use assms in \<open>simp_all add: pending_handleAuth pending_handleRegisterUser
       pending_handleRegisterMachine not_authenticated_def pending_handleConnectionAccepted
       pending_handleRTCOffer pending_handleRTCIceCandidate\<close>)

lemma armed_at_creation:
  assumes "pendingConnections st k = None"
      and "handleConnectToMachine E now c tgt st = (oc, st')"
      and "pendingConnections st' k = Some q"
  shows "createdAt q = now \<and>
         (\<exists>t \<in> set (timers st'). t_connectionId t = k \<and> t_due t = now + 30000)"
proof -
  have cp: "\<And>tc cid nm s. pendingConnections s = pendingConnections st \<Longrightarrow>
              pendingConnections (createPending E now c tgt tc cid nm s) k = Some q \<Longrightarrow>
              createdAt q = now \<and>
              (\<exists>t \<in> set (timers (createPending E now c tgt tc cid nm s)).
                 t_connectionId t = k \<and> t_due t = now + 30000)"
    using assms(1)
    by (auto simp: pending_createPending timers_createPending split: if_splits)
  show ?thesis
  proof (cases "truthy (userId (heap st c))")
    case False
    with assms show ?thesis by (auto simp: handleConnectToMachine_def)
  next
    case True
    note auth = this
    obtain r d1 where ca: "canUserAccessMachine (or_else (userId (heap st c)) []) tgt (db st) = (r, d1)"
      by (cases "canUserAccessMachine (or_else (userId (heap st c)) []) tgt (db st)")
    show ?thesis
    proof (cases r)
      case Threw
      with assms auth ca show ?thesis by (auto simp: handleConnectToMachine_def)
    next
      case (Ok canAccess)
      show ?thesis
      proof (cases "canAccess \<and> map_of (machineClients st) tgt \<noteq> None")
        case False
        with assms auth ca Ok show ?thesis
          by (auto simp: handleConnectToMachine_def split: option.splits if_splits)
      next
        case True
        then obtain tc where tc: "map_of (machineClients st) tgt = Some tc" and acc: canAccess
          by auto
        show ?thesis
        proof (cases "truthy (machineId (heap st c))")
          case False
          with assms(2) auth ca Ok tc acc have
            "st' = createPending E now c tgt tc (''web-client-'' @ string_of_nat (Suc (webClientCounter st)))
                     ''Web Client''
                     (st\<lparr>db := d1, webClientCounter := Suc (webClientCounter st),
                         webClients := (webClients st)
                           (''web-client-'' @ string_of_nat (Suc (webClientCounter st)) \<mapsto> c)\<rparr>)"
            by (simp add: handleConnectToMachine_def Let_def)
          with assms(3) show ?thesis by (auto intro!: cp)
        next
          case True
          let ?mid = "or_else (machineId (heap st c)) []"
          obtain r2 d2 where g: "getMachineById ?mid d1 = (r2, d2)"
            by (cases "getMachineById ?mid d1")
          show ?thesis
          proof (cases r2)
            case Threw
            with assms auth ca Ok tc acc True g show ?thesis
              by (auto simp: handleConnectToMachine_def Let_def)
          next
            case (Ok sm)
            with assms(2) auth ca \<open>r = Ok canAccess\<close> tc acc True g have
              "st' = createPending E now c tgt tc ?mid
                       (case sm of None \<Rightarrow> ''Web Client'' | Some m \<Rightarrow> m_name m) (st\<lparr>db := d2\<rparr>)"
              by (simp add: handleConnectToMachine_def Let_def)
            with assms(3) show ?thesis by (auto intro!: cp)
          qed
        qed
      qed
    qed
  qed
qed

lemma small_decimals [simp]: "string_of_nat (Suc 0) = ''1''" "string_of_nat 2 = ''2''"
proof -
  have "digit_char (Suc 0) = CHR ''1''" "digit_char 2 = CHR ''2''"
    unfolding digit_char_def by code_simp+
  then show "string_of_nat (Suc 0) = ''1''" "string_of_nat 2 = ''2''"
    by (simp_all add: string_of_nat.simps [of "Suc 0"] string_of_nat.simps [of 2])
qed

lemma env0_fields [simp]:
  "uuidv4 env0 n = ''conn-'' @ string_of_nat n" "uuid_gen env0 n = ''row-'' @ string_of_nat n"
  by (simp_all add: env0_def)

lemma alice_has_access: "canUserAccessMachine ''alice'' ''M'' db0 = (Ok True, db0)"
  by (simp add: canUserAccessMachine_def query_def select_owned_def)

lemma connect_from_channel_50:
  "handleConnectToMachine env0 1000 50 ''M'' st0 =
     (Returned,
      st0\<lparr>webClientCounter := 2,
          webClients := [''web-client-1'' \<mapsto> 20, ''web-client-2'' \<mapsto> 50],
          uuid_drawn := 2,
          pendingConnections := [''C'' \<mapsto> pending0, ''conn-1'' \<mapsto> pending1],
          outbox := [(10, connection_request ''web-client-2'' ''Web Client'' ''conn-1'')],
          timers := timers st0 @
            [\<lparr>t_connectionId = ''conn-1'', t_clientId = ''web-client-2'', t_client = 50,
              t_due = 31000\<rparr>]\<rparr>)"
proof -
  have a: "st0\<lparr>db := db0\<rparr> = st0" by (simp add: st0_def)
  have u: "uuid_drawn st0 = Suc 0" by (simp add: st0_def)
  show ?thesis
    by (simp add: handleConnectToMachine_def truthy_def or_else_def alice_has_access Let_def
          createPending_def send_def u pending1_def numeral_2_eq_2 [symmetric])
qed

lemma idless_simps [simp]:
  "idless []" "idless (fs @ gs) = (idless fs \<and> idless gs)"
  "idless [(w, f)] = (msg_id f = None)"
  by (auto simp: idless_def)

lemma errorfree_simps [simp]:
  "errorfree []" "errorfree (fs @ gs) = (errorfree fs \<and> errorfree gs)"
  "errorfree [(w, f)] = (msg_type f \<noteq> T_error)"
  by (auto simp: errorfree_def)

lemma idless_butlast: "idless fs \<Longrightarrow> idless (butlast fs)"
  by (auto simp: idless_def dest: in_set_butlastD)

lemma idless_written: "msg_id m = None \<Longrightarrow> idless (written st w m)"
  by (simp add: written_def)

lemma idless_written_error [simp]: "idless (written st w (error_frame code msg))"
  by (simp add: written_def error_frame_def)

lemma reply_shape_idless: "idless fs \<Longrightarrow> reply_shape fs"
  by (simp add: reply_shape_def)

lemma reply_shape_last:
  "idless bs \<Longrightarrow> errorfree bs \<Longrightarrow> msg_type m \<noteq> T_error \<Longrightarrow> reply_shape (bs @ written st w m)"
  by (auto simp: reply_shape_def written_def butlast_append idless_butlast)

lemma reply_shape_single: "msg_type m \<noteq> T_error \<Longrightarrow> reply_shape (written st w m)"
  using reply_shape_last [of "[]" m st w] by simp

lemma outbox_send: "outbox (send w m st) = outbox st @ written st w m"
  by (simp add: send_written)

lemma outbox_sendError: "outbox (sendError w code msg st) = outbox st @ written st w (error_frame code msg)"
  by (simp add: sendError_written)

lemma outbox_set_authenticated [simp]: "outbox (set_authenticated c u st) = outbox st"
  by (simp add: set_authenticated_def)

lemma emits_handleAuth:
  "\<exists>fs. outbox (handleAuth E c pl mid st) = outbox st @ fs \<and> reply_shape fs"
proof -
  obtain response st1 where a: "authenticate E c pl st = (response, st1)"
    by (cases "authenticate E c pl st")
  from authenticate_frame [OF a] have o: "outbox st1 = outbox st" by simp
  have h: "handleAuth E c pl mid st =
          send c \<lparr>msg_type = T_auth_response, msg_id = mid, payload = AuthResponseP response\<rparr> st1"
    by (simp add: handleAuth_def a)
  have r: "reply_shape (written st1 c \<lparr>msg_type = T_auth_response, msg_id = mid,
                                        payload = AuthResponseP response\<rparr>)"
    by (rule reply_shape_single) simp
  show ?thesis
    unfolding h outbox_send o using r by blast
qed

lemma emits_handleRegisterUser:
  "\<exists>fs. outbox (handleRegisterUser E now c pl mid st) = outbox st @ fs \<and> reply_shape fs"
proof -
  obtain response d1 where a:
    "registerUser E now (ru_email pl) (ru_username pl) (ru_password pl) (db st) = (response, d1)"
    by (cases "registerUser E now (ru_email pl) (ru_username pl) (ru_password pl) (db st)")
  let ?st1 = "case user response of
                Some u \<Rightarrow> if success response
                          then set_authenticated c (uv_id u) (st\<lparr>db := d1\<rparr>)
                          else st\<lparr>db := d1\<rparr>
              | None \<Rightarrow> st\<lparr>db := d1\<rparr>"
  have o: "outbox ?st1 = outbox st" by (simp split: option.splits)
  have h: "handleRegisterUser E now c pl mid st =
          send c \<lparr>msg_type = T_register_user_response, msg_id = mid,
                  payload = AuthResponseP response\<rparr> ?st1"
    by (simp add: handleRegisterUser_def a Let_def)
  have r: "reply_shape (written ?st1 c \<lparr>msg_type = T_register_user_response, msg_id = mid,
                                         payload = AuthResponseP response\<rparr>)"
    by (rule reply_shape_single) simp
  show ?thesis
    unfolding h outbox_send o using r by blast
qed

lemma emits_broadcast:
  assumes "broadcastMachineStatus mid b ex st = (oc, st')"
  shows "\<exists>fs. outbox st' = outbox st @ fs \<and> idless fs \<and> errorfree fs"
proof -
  from broadcast_frame [OF assms] obtain fs d' where
    "st' = st\<lparr>db := d', outbox := outbox st @ fs\<rparr>"
    "\<forall>(w, f) \<in> set fs. msg_id f = None \<and> msg_type f \<noteq> T_error"
    by blast
  then show ?thesis
    by (intro exI [of _ fs]) (auto simp: idless_def errorfree_def)
qed

lemma emits_registerMachine_try:
  assumes "registerMachine_try E now c uid pl mid st = (oc, st')"
  shows "\<exists>fs. outbox st' = outbox st @ fs \<and>
           (case oc of Thrown \<Rightarrow> idless fs | Returned \<Rightarrow> reply_shape fs)"
proof (cases "registerMachine E now uid (rm_name pl) (rm_platform pl) (rm_capabilities pl) (db st)")
  case (Pair r d1)
  show ?thesis
  proof (cases r)
    case Threw
    with Pair assms show ?thesis
      by (auto simp: registerMachine_try_def intro!: exI [of _ "[]"])
  next
    case (Ok machine)
    let ?st2 = "registerMachineClient (m_id machine) c
                  (st\<lparr>db := d1, heap := (heap st)(c := (heap st c)\<lparr>machineId := Some (m_id machine)\<rparr>)\<rparr>)"
    obtain oc3 st3 where b: "broadcastMachineStatus (m_id machine) True (Some c) ?st2 = (oc3, st3)"
      by (cases "broadcastMachineStatus (m_id machine) True (Some c) ?st2")
    from emits_broadcast [OF b] obtain bs where
      bs: "outbox st3 = outbox st @ bs" "idless bs" "errorfree bs"
      by (auto simp: registerMachineClient_def)
    show ?thesis
    proof (cases oc3)
      case Thrown
      with assms Pair Ok b have "oc = Thrown" "st' = st3"
        by (auto simp: registerMachine_try_def Let_def)
      with bs show ?thesis by auto
    next
      case Returned
      with assms Pair Ok b have oc: "oc = Returned"
        and st': "st' = send c \<lparr>msg_type = T_machine_registered, msg_id = mid,
                      payload = MachineRegisteredP (m_id machine) (m_name machine)\<rparr> st3"
        by (auto simp: registerMachine_try_def Let_def)
      have "reply_shape (bs @ written st3 c \<lparr>msg_type = T_machine_registered, msg_id = mid,
                      payload = MachineRegisteredP (m_id machine) (m_name machine)\<rparr>)"
        using bs by (intro reply_shape_last) simp_all
      then show ?thesis
        unfolding oc st' outbox_send bs(1) by (intro exI conjI) (simp_all add: append_assoc)
    qed
  qed
qed

lemma emits_handleRegisterMachine:
  "\<exists>fs. outbox (handleRegisterMachine E now c pl mid st) = outbox st @ fs \<and> reply_shape fs"
proof (cases "truthy (userId (heap st c))")
  case False
  then show ?thesis
    by (auto simp: handleRegisterMachine_def outbox_sendError intro!: reply_shape_idless)
next
  case True
  obtain oc st1 where t: "registerMachine_try E now c (or_else (userId (heap st c)) []) pl mid st = (oc, st1)"
    by (cases "registerMachine_try E now c (or_else (userId (heap st c)) []) pl mid st")
  from emits_registerMachine_try [OF t] obtain fs where
    fs: "outbox st1 = outbox st @ fs" "case oc of Thrown \<Rightarrow> idless fs | Returned \<Rightarrow> reply_shape fs"
    by blast
  show ?thesis
  proof (cases oc)
    case Returned
    with True t fs show ?thesis by (auto simp: handleRegisterMachine_def)
  next
    case Thrown
    with fs have "idless (fs @ written st1 c (error_frame ''REGISTRATION_FAILED'' ''Failed to register machine''))"
      by simp
    with True t Thrown fs(1) show ?thesis
      by (auto simp: handleRegisterMachine_def outbox_sendError intro!: reply_shape_idless)
  qed
qed

lemma appended_same [simp]: "appended P old (old @ x) = P x"
  by (simp add: appended_def)

lemma appended_refl [simp]: "appended P old old = P []"
  by (simp add: appended_def)

lemma outbox_createPending:
  "outbox (createPending E now c tgt tc cid nm st) =
     outbox st @ written st tc (connection_request cid nm (uuidv4 E (uuid_drawn st)))"
  by (simp add: createPending_def Let_def send_written)

lemma idless_connection_request [simp]: "idless (written st w (connection_request a b c))"
  by (simp add: written_def connection_request_def)

lemma emits_handleConnectToMachine:
  "appended idless (outbox st) (outbox (snd (handleConnectToMachine E now c tgt st)))"
  by (simp add: handleConnectToMachine_def Let_def outbox_sendError outbox_createPending
        split: prod.splits result.splits option.splits)

lemma emits_signaling:
  "appended idless (outbox st) (outbox (handleConnectionAccepted c cid st))"
  "appended idless (outbox st) (outbox (handleConnectionRejected c cid reason st))"
  "appended idless (outbox st) (outbox (handleRTCOffer c pl st))"
  "appended idless (outbox st) (outbox (handleRTCAnswer c pl st))"
  "appended idless (outbox st) (outbox (handleRTCIceCandidate c ipl st))"
  by (simp_all add: handleConnectionAccepted_def handleConnectionRejected_def handleRTCOffer_def
        handleRTCAnswer_def handleRTCIceCandidate_def Let_def outbox_sendError outbox_send
        idless_written split: option.splits)

lemma emits_handleMessage:
  "appended (\<lambda>fs. reply_shape fs \<and> (fst (handleMessage E now c mid req st) = Thrown \<longrightarrow> idless fs))
     (outbox st) (outbox (snd (handleMessage E now c mid req st)))"
proof (cases req)
  case (Auth pl)
  with emits_handleAuth [of E c pl mid st] show ?thesis by (simp add: appended_def)
next
  case (Register_user pl)
  with emits_handleRegisterUser [of E now c pl mid st] show ?thesis by (simp add: appended_def)
next
  case (Register_machine pl)
  with emits_handleRegisterMachine [of E now c pl mid st] show ?thesis
    by (simp add: appended_def not_authenticated_def outbox_sendError reply_shape_idless)
next
  case Heartbeat
  then show ?thesis
    by (simp add: Let_def outbox_send reply_shape_idless idless_written
          split: prod.splits result.splits)
next
  case List_machines
  then show ?thesis
    by (simp add: not_authenticated_def outbox_sendError outbox_send reply_shape_idless
          reply_shape_single split: prod.splits result.splits)
next
  case (Delete_machine x)
  then show ?thesis
    by (simp add: not_authenticated_def outbox_sendError outbox_send reply_shape_idless
          reply_shape_single split: prod.splits result.splits)
next
  case (Rename_machine x y)
  then show ?thesis
    by (simp add: not_authenticated_def outbox_sendError outbox_send reply_shape_idless
          reply_shape_single split: prod.splits result.splits)
next
  case (Connect_to_machine tgt)
  with emits_handleConnectToMachine [of st E now c tgt] show ?thesis
    by (auto simp: appended_def not_authenticated_def outbox_sendError reply_shape_idless)
next
  case (Connection_accepted cid)
  with emits_signaling(1) [of st c cid] show ?thesis
    by (auto simp: appended_def reply_shape_idless)
next
  case (Connection_rejected cid reason)
  with emits_signaling(2) [of st c cid reason] show ?thesis
    by (auto simp: appended_def reply_shape_idless)
next
  case (Rtc_offer pl)
  with emits_signaling(3) [of st c pl] show ?thesis
    by (auto simp: appended_def reply_shape_idless)
next
  case (Rtc_answer pl)
  with emits_signaling(4) [of st c pl] show ?thesis
    by (auto simp: appended_def reply_shape_idless)
next
  case (Rtc_ice_candidate pl)
  with emits_signaling(5) [of st c pl] show ?thesis
    by (auto simp: appended_def reply_shape_idless)
next
  case (Other_type t)
  then show ?thesis
    by (simp add: outbox_sendError reply_shape_idless)
qed

lemma emits_onMessage:
  "appended reply_shape (outbox st) (outbox (onMessage E now c data st))"
proof (cases data)
  case None
  then show ?thesis by (simp add: onMessage_def outbox_sendError reply_shape_idless)
next
  case (Some message)
  obtain oc st1 where h: "handleMessage E now c (in_id message) (in_request message) st = (oc, st1)"
    by (cases "handleMessage E now c (in_id message) (in_request message) st")
  from emits_handleMessage [of E now c "in_id message" "in_request message" st] h
  obtain fs where fs: "outbox st1 = outbox st @ fs" "reply_shape fs" "oc = Thrown \<longrightarrow> idless fs"
    by (auto simp: appended_def)
  show ?thesis
  proof (cases oc)
    case Returned
    with Some h fs show ?thesis by (simp add: onMessage_def)
  next
    case Thrown
    with fs have "idless (fs @ written st1 c (error_frame ''INVALID_MESSAGE'' ''Invalid message format''))"
      by simp
    then have "reply_shape (fs @ written st1 c (error_frame ''INVALID_MESSAGE'' ''Invalid message format''))"
      by (rule reply_shape_idless)
    with Some h Thrown fs(1) show ?thesis
      by (simp add: onMessage_def outbox_sendError)
  qed
qed

lemma reply_shape_one_response:
  assumes "reply_shape fs"
  shows "length (filter (\<lambda>(w, f). w = c \<and> msg_id f = Some X) fs) \<le> 1 \<and>
         \<not> ((\<exists>(w, f) \<in> set fs. w = c \<and> msg_id f = Some X) \<and>
            (\<exists>(w, f) \<in> set fs. w = c \<and> msg_type f = T_error))"
proof (cases "idless fs")
  case True
  then have "filter (\<lambda>(w, f). w = c \<and> msg_id f = Some X) fs = []"
    by (auto simp: idless_def filter_empty_conv)
  moreover from True have "\<not> (\<exists>(w, f) \<in> set fs. w = c \<and> msg_id f = Some X)"
    by (auto simp: idless_def)
  ultimately show ?thesis by simp
next
  case False
  with assms have b: "idless (butlast fs)" and e: "errorfree fs"
    by (simp_all add: reply_shape_def)
  from False have ne: "fs \<noteq> []" by auto
  then have fs: "fs = butlast fs @ [last fs]" by simp
  from b have "filter (\<lambda>(w, f). w = c \<and> msg_id f = Some X) (butlast fs) = []"
    by (auto simp: idless_def filter_empty_conv)
  then have "length (filter (\<lambda>(w, f). w = c \<and> msg_id f = Some X) (butlast fs @ [last fs])) \<le> 1"
    by simp
  with fs have "length (filter (\<lambda>(w, f). w = c \<and> msg_id f = Some X) fs) \<le> 1" by simp
  moreover from e have "\<not> (\<exists>(w, f) \<in> set fs. w = c \<and> msg_type f = T_error)"
    by (auto simp: errorfree_def)
  ultimately show ?thesis by simp
qed

lemma list_reply:
  "onMessage env0 1000 20 (Some list_request) st0 =
     st0\<lparr>outbox := [(20, \<lparr>msg_type = T_machines_list, msg_id = Some ''req-7'',
                          payload = MachinesListP [machine_info (row ''M'' ''alice'' ''laptop'' 0 True)]\<rparr>)]\<rparr>"
proof -
  have g: "getMachinesForUser ''alice'' db0 =
             (Ok [machine_info (row ''M'' ''alice'' ''laptop'' 0 True)], db0)"
    by (simp add: getMachinesForUser_def query_def select_machines_of_user_def)
  have a: "st0\<lparr>db := db0\<rparr> = st0" by (simp add: st0_def)
  show ?thesis
    by (simp add: onMessage_def list_request_def truthy_def or_else_def g a send_def)
qed

lemma refresh_refresh: "refresh mid t2 (refresh mid t1 rows) = refresh mid t2 rows"
  by (auto simp: refresh_def)

lemma heartbeat_step_nofault:
  assumes "faults (db st) = []"
  shows "onMessage E t c (Some \<lparr>in_id = mid, in_request = Heartbeat\<rparr>) st =
           st\<lparr>heap := (heap st)(c := (heap st c)\<lparr>lastHeartbeat := t\<rparr>),
              db := (db st)\<lparr>machines := refresh (machineId (heap st c)) t (machines (db st))\<rparr>,
              outbox := outbox st @ written st c heartbeat_ack\<rparr>"
proof (cases "truthy (machineId (heap st c))")
  case False
  then have "(db st)\<lparr>machines := refresh (machineId (heap st c)) t (machines (db st))\<rparr> = db st"
    by (simp add: refresh_def)
  with False show ?thesis
    by (simp add: onMessage_def Let_def send_def written_def heartbeat_ack_def)
next
  case True
  then obtain m where m: "machineId (heap st c) = Some m" "m \<noteq> []"
    by (cases "machineId (heap st c)") (simp_all add: truthy_def)
  have u: "updateMachineHeartbeat t m (db st) =
             (Ok (), (db st)\<lparr>machines := refresh (Some m) t (machines (db st))\<rparr>)"
    using assms m
    by (simp add: updateMachineHeartbeat_def query_def update_last_seen_def refresh_def truthy_def)
  from True m show ?thesis
    by (simp add: onMessage_def Let_def or_else_def u send_def written_def heartbeat_ack_def)
qed

lemma canUserAccessMachine_tables:
  "canUserAccessMachine u m d = (r, d1) \<Longrightarrow>
     machines d1 = machines d \<and> users d1 = users d \<and> uuid_next d1 = uuid_next d"
  by (auto simp: canUserAccessMachine_def query_unfold select_owned_def split: if_splits)

lemma updateMachineOnlineStatus_Threw:
  assumes "updateMachineOnlineStatus now m b d = (Threw, d1)"
  shows "machines d1 = machines d \<and> users d1 = users d"
  using assms
  by (auto simp: updateMachineOnlineStatus_def query_unfold update_online_status_def split: if_splits)

lemma updateMachineHeartbeat_cases:
  assumes "updateMachineHeartbeat now m d = (r, d1)"
  shows "users d1 = users d \<and> uuid_next d1 = uuid_next d \<and>
         (r = Threw \<longrightarrow> machines d1 = machines d) \<and>
         (r \<noteq> Threw \<longrightarrow> machines d1 = refresh (Some m) now (machines d) \<or> m = [])"
  using assms
  by (auto simp: updateMachineHeartbeat_def query_unfold update_last_seen_def refresh_def truthy_def
        split: if_splits)

lemma heartbeat_step:
  "\<exists>d1. onMessage E now c (Some (heartbeat_frame mid)) st =
          st\<lparr>heap := (heap st)(c := (heap st c)\<lparr>lastHeartbeat := now\<rparr>),
             db := d1,
             outbox := outbox st @
               written st c (if refresh_rejected now c st
                             then error_frame ''INVALID_MESSAGE'' ''Invalid message format''
                             else heartbeat_ack)\<rparr> \<and>
        users d1 = users (db st) \<and> uuid_next d1 = uuid_next (db st) \<and>
        machines d1 = (if refresh_rejected now c st then machines (db st)
                       else refresh (machineId (heap st c)) now (machines (db st)))"
proof (cases "truthy (machineId (heap st c))")
  case False
  then have nr: "\<not> refresh_rejected now c st" by (simp add: refresh_rejected_def)
  have "onMessage E now c (Some (heartbeat_frame mid)) st =
          st\<lparr>heap := (heap st)(c := (heap st c)\<lparr>lastHeartbeat := now\<rparr>),
             db := db st, outbox := outbox st @ written st c heartbeat_ack\<rparr>"
    using False
    by (simp add: onMessage_def heartbeat_frame_def Let_def send_def written_def heartbeat_ack_def)
  with nr False show ?thesis
    by (intro exI [of _ "db st"]) (simp add: refresh_def)
next
  case True
  then obtain m where m: "machineId (heap st c) = Some m" "m \<noteq> []"
    by (cases "machineId (heap st c)") (simp_all add: truthy_def)
  then have o: "or_else (machineId (heap st c)) [] = m" by (simp add: or_else_def)
  obtain r d1 where u: "updateMachineHeartbeat now m (db st) = (r, d1)"
    by (cases "updateMachineHeartbeat now m (db st)")
  note uc = updateMachineHeartbeat_cases [OF u]
  show ?thesis
  proof (cases r)
    case Threw
    then have rr: "refresh_rejected now c st"
      using True o u by (simp add: refresh_rejected_def)
    have "onMessage E now c (Some (heartbeat_frame mid)) st =
          st\<lparr>heap := (heap st)(c := (heap st c)\<lparr>lastHeartbeat := now\<rparr>),
             db := d1,
             outbox := outbox st @
               written st c (error_frame ''INVALID_MESSAGE'' ''Invalid message format'')\<rparr>"
      using True o u Threw
      by (simp add: onMessage_def heartbeat_frame_def Let_def sendError_def send_def written_def)
    with rr uc Threw show ?thesis
      by (intro exI [of _ d1]) simp
  next
    case (Ok x)
    then have nr: "\<not> refresh_rejected now c st"
      using True o u by (simp add: refresh_rejected_def)
    have "onMessage E now c (Some (heartbeat_frame mid)) st =
          st\<lparr>heap := (heap st)(c := (heap st c)\<lparr>lastHeartbeat := now\<rparr>),
             db := d1, outbox := outbox st @ written st c heartbeat_ack\<rparr>"
      using True o u Ok
      by (simp add: onMessage_def heartbeat_frame_def Let_def send_def written_def heartbeat_ack_def)
    with nr uc Ok m show ?thesis
      by (intro exI [of _ d1]) simp
  qed
qed

lemma heartbeat_changes_only_refl: "heartbeat_changes_only c st st"
proof -
  have "heap st = (heap st)(c := (heap st c)\<lparr>lastHeartbeat := lastHeartbeat (heap st c)\<rparr>)"
    by simp
  then have "\<exists>t. heap st = (heap st)(c := (heap st c)\<lparr>lastHeartbeat := t\<rparr>)" ..
  moreover have "list_all2 (\<lambda>r r'. r' = r \<or>
                   (Some (m_id r) = machineId (heap st c) \<and> (\<exists>t. r' = r\<lparr>m_last_seen := t\<rparr>)))
        (machines (db st)) (machines (db st))"
    by (rule list_all2_refl) simp
  moreover have "\<exists>fs. outbox st = outbox st @ fs \<and>
            set fs \<subseteq> {(c, heartbeat_ack),
                      (c, error_frame ''INVALID_MESSAGE'' ''Invalid message format'')}"
    by (rule exI [of _ "[]"]) simp
  ultimately show ?thesis
    unfolding heartbeat_changes_only_def by simp
qed

lemma heartbeat_changes_only_trans:
  assumes a: "heartbeat_changes_only c s1 s2" and b: "heartbeat_changes_only c s2 s3"
  shows "heartbeat_changes_only c s1 s3"
proof -
  let ?R = "\<lambda>s r r'. r' = r \<or>
              (Some (m_id r) = machineId (heap s c) \<and> (\<exists>t. r' = r\<lparr>m_last_seen := t\<rparr>))"
  from a obtain t1 fs1 where
    a1: "s2\<lparr>heap := heap s1, db := db s1, outbox := outbox s1\<rparr> = s1"
    and a2: "heap s2 = (heap s1)(c := (heap s1 c)\<lparr>lastHeartbeat := t1\<rparr>)"
    and a3: "users (db s2) = users (db s1)" "uuid_next (db s2) = uuid_next (db s1)"
    and a4: "list_all2 (?R s1) (machines (db s1)) (machines (db s2))"
    and a5: "outbox s2 = outbox s1 @ fs1"
            "set fs1 \<subseteq> {(c, heartbeat_ack),
                         (c, error_frame ''INVALID_MESSAGE'' ''Invalid message format'')}"
    unfolding heartbeat_changes_only_def by blast
  from b obtain t2 fs2 where
    b1: "s3\<lparr>heap := heap s2, db := db s2, outbox := outbox s2\<rparr> = s2"
    and b2: "heap s3 = (heap s2)(c := (heap s2 c)\<lparr>lastHeartbeat := t2\<rparr>)"
    and b3: "users (db s3) = users (db s2)" "uuid_next (db s3) = uuid_next (db s2)"
    and b4: "list_all2 (?R s2) (machines (db s2)) (machines (db s3))"
    and b5: "outbox s3 = outbox s2 @ fs2"
            "set fs2 \<subseteq> {(c, heartbeat_ack),
                         (c, error_frame ''INVALID_MESSAGE'' ''Invalid message format'')}"
    unfolding heartbeat_changes_only_def by blast
  have c1: "s3\<lparr>heap := heap s1, db := db s1, outbox := outbox s1\<rparr> = s1"
  proof -
    have "s3\<lparr>heap := heap s1, db := db s1, outbox := outbox s1\<rparr> =
          (s3\<lparr>heap := heap s2, db := db s2, outbox := outbox s2\<rparr>)
            \<lparr>heap := heap s1, db := db s1, outbox := outbox s1\<rparr>"
      by simp
    also have "\<dots> = s2\<lparr>heap := heap s1, db := db s1, outbox := outbox s1\<rparr>"
      by (simp only: b1)
    also have "\<dots> = s1" by (rule a1)
    finally show ?thesis .
  qed
  have c2: "heap s3 = (heap s1)(c := (heap s1 c)\<lparr>lastHeartbeat := t2\<rparr>)"
    unfolding b2 a2 by simp
  have mid: "machineId (heap s2 c) = machineId (heap s1 c)"
    unfolding a2 by simp
  have c4: "list_all2 (?R s1) (machines (db s1)) (machines (db s3))"
  proof (rule list_all2_trans [OF _ a4 b4])
    fix x y z
    assume xy: "?R s1 x y" and yz: "?R s2 y z"
    from xy have idy: "m_id y = m_id x" by auto
    from xy yz idy show "?R s1 x z"
      unfolding mid by auto
  qed
  have c5: "outbox s3 = outbox s1 @ (fs1 @ fs2)"
    "set (fs1 @ fs2) \<subseteq> {(c, heartbeat_ack),
                         (c, error_frame ''INVALID_MESSAGE'' ''Invalid message format'')}"
    using a5 b5 by simp_all
  from c5 have c5': "\<exists>fs. outbox s3 = outbox s1 @ fs \<and>
            set fs \<subseteq> {(c, heartbeat_ack),
                      (c, error_frame ''INVALID_MESSAGE'' ''Invalid message format'')}"
    by blast
  from c2 have c2': "\<exists>t. heap s3 = (heap s1)(c := (heap s1 c)\<lparr>lastHeartbeat := t\<rparr>)" ..
  have c3: "users (db s3) = users (db s1)" "uuid_next (db s3) = uuid_next (db s1)"
    using a3 b3 by simp_all
  from c1 c2' c3 c4 c5' show ?thesis
    unfolding heartbeat_changes_only_def by blast
qed

lemma refresh_rows:
  "list_all2 (\<lambda>r r'. r' = r \<or> (Some (m_id r) = mid \<and> (\<exists>t. r' = r\<lparr>m_last_seen := t\<rparr>)))
     rows (refresh mid now rows)"
  by (induction rows) (auto simp: refresh_def list_all2_same intro: list_all2_refl)

lemma heartbeat_changes_only_step:
  "heartbeat_changes_only c st (onMessage E now c (Some (heartbeat_frame mid)) st)"
proof -
  let ?st' = "onMessage E now c (Some (heartbeat_frame mid)) st"
  let ?f = "if refresh_rejected now c st
            then error_frame ''INVALID_MESSAGE'' ''Invalid message format'' else heartbeat_ack"
  from heartbeat_step [of E now c mid st] obtain d1 where
    s: "?st' = st\<lparr>heap := (heap st)(c := (heap st c)\<lparr>lastHeartbeat := now\<rparr>), db := d1,
                   outbox := outbox st @ written st c ?f\<rparr>"
    and u: "users d1 = users (db st)" "uuid_next d1 = uuid_next (db st)"
    and m: "machines d1 = (if refresh_rejected now c st then machines (db st)
                           else refresh (machineId (heap st c)) now (machines (db st)))"
    by blast
  have c1: "?st'\<lparr>heap := heap st, db := db st, outbox := outbox st\<rparr> = st"
    unfolding s by simp
  have c2: "\<exists>t. heap ?st' = (heap st)(c := (heap st c)\<lparr>lastHeartbeat := t\<rparr>)"
    unfolding s by (rule exI [of _ now]) simp
  have c3: "users (db ?st') = users (db st)" "uuid_next (db ?st') = uuid_next (db st)"
    unfolding s using u by simp_all
  have c4: "list_all2 (\<lambda>r r'. r' = r \<or>
                   (Some (m_id r) = machineId (heap st c) \<and> (\<exists>t. r' = r\<lparr>m_last_seen := t\<rparr>)))
        (machines (db st)) (machines (db ?st'))"
  proof (cases "refresh_rejected now c st")
    case True
    with m have "machines (db ?st') = machines (db st)" unfolding s by simp
    then show ?thesis by (simp add: list_all2_refl)
  next
    case False
    with m have "machines (db ?st') = refresh (machineId (heap st c)) now (machines (db st))"
      unfolding s by simp
    then show ?thesis by (simp add: refresh_rows)
  qed
  have c5: "\<exists>fs. outbox ?st' = outbox st @ fs \<and>
            set fs \<subseteq> {(c, heartbeat_ack),
                      (c, error_frame ''INVALID_MESSAGE'' ''Invalid message format'')}"
    unfolding s by (rule exI [of _ "written st c ?f"]) (auto simp: written_def)
  from c1 c2 c3 c4 c5 show ?thesis
    unfolding heartbeat_changes_only_def by blast
qed

lemma heartbeats_changes_only:
  "heartbeat_changes_only c st (heartbeats E c ts st)"
proof (induction ts arbitrary: st)
  case Nil
  show ?case by (simp add: heartbeat_changes_only_refl)
next
  case (Cons t ts)
  let ?s1 = "onMessage E t c (Some \<lparr>in_id = None, in_request = Heartbeat\<rparr>) st"
  have "heartbeat_changes_only c st ?s1"
    using heartbeat_changes_only_step [of c st E t None] by (simp add: heartbeat_frame_def)
  moreover have "heartbeat_changes_only c ?s1 (heartbeats E c ts ?s1)" by (rule Cons.IH)
  ultimately show ?case
    by (simp add: heartbeat_changes_only_trans)
qed

section \<open>Access control of connection requests\<close>

text \<open>
  Claim C1. A client that is authenticated (its \<open>userId\<close> is set) calls
  \<open>handleConnectToMachine\<close> for machine \<open>m\<close>, and \<open>canUserAccessMachine\<close> answers false.
  Then the handler returns, and the only effect besides the store's bookkeeping of the
  query is one \<open>error\<close> frame with code \<open>ACCESS_DENIED\<close> written to the caller (\<open>send\<close>
  writes it when the caller's socket is open). No \<open>connection_request\<close> is written to any
  channel, \<open>Pending\<close>, \<open>WebChannels\<close>, the counter and the timers are unchanged.
\<close>

theorem connect_access_denied:
  assumes "truthy (userId (heap st c))"
      and "canUserAccessMachine (or_else (userId (heap st c)) []) m (db st) = (Ok False, d1)"
  shows "handleConnectToMachine E now c m st =
           (Returned,
            st\<lparr>db := d1,
               outbox := outbox st @
                 written st c (error_frame ''ACCESS_DENIED'' ''You do not have access to this machine'')\<rparr>) \<and>
         machines d1 = machines (db st) \<and> users d1 = users (db st)"
  using assms canUserAccessMachine_tables [OF assms(2)]
  by (simp add: handleConnectToMachine_def sendError_written)

theorem connect_access_denied_witness:
  "truthy (userId (heap st0 30)) \<and>
   canUserAccessMachine (or_else (userId (heap st0 30)) []) ''M'' (db st0) = (Ok False, db0) \<and>
   handleConnectToMachine env0 1000 30 ''M'' st0 =
     (Returned,
      st0\<lparr>outbox := [(30, error_frame ''ACCESS_DENIED'' ''You do not have access to this machine'')]\<rparr>)"
proof -
  have a: "truthy (userId (heap st0 30))" by (simp add: truthy_def)
  have b: "canUserAccessMachine (or_else (userId (heap st0 30)) []) ''M'' (db st0) = (Ok False, db0)"
    by (simp add: or_else_def bob_has_no_access)
  from connect_access_denied [OF a b, of env0 1000] a b show ?thesis
    by (simp add: written_def st0_def)
qed

section \<open>Acceptance of a connection\<close>

text \<open>
  Claim C6. \<open>connection_accepted\<close> for connection \<open>cid\<close>: when \<open>cid\<close> is not pending the
  sender is sent \<open>CONNECTION_NOT_FOUND\<close>; when it is and the sender's \<open>machineId\<close> is not
  the pending connection's \<open>toMachineId\<close> the sender is sent \<open>INVALID_CONNECTION\<close>; otherwise
  the originator's channel is sent \<open>connection_accepted {connectionId, targetMachineId}\<close>.
  In each case nothing but \<open>outbox\<close> changes, so \<open>Pending\<close> keeps the entry.
\<close>

theorem connection_accepted_cases:
  "handleConnectionAccepted c cid st =
     st\<lparr>outbox := outbox st @
        (case pendingConnections st cid of
           None \<Rightarrow> written st c (error_frame ''CONNECTION_NOT_FOUND''
                                   ''Connection request not found or expired'')
         | Some p \<Rightarrow>
             if machineId (heap st c) \<noteq> Some (toMachineId p)
             then written st c (error_frame ''INVALID_CONNECTION''
                                  ''You are not the target of this connection'')
             else written st (fromClient p)
                    \<lparr>msg_type = T_connection_accepted, msg_id = None,
                     payload = ConnectionAcceptedP cid (toMachineId p)\<rparr>)\<rparr>"
  by (simp add: handleConnectionAccepted_def sendError_written send_written split: option.splits)

theorem connection_accepted_cases_witness:
  "outbox (handleConnectionAccepted 10 ''C'' st0) =
     [(20, \<lparr>msg_type = T_connection_accepted, msg_id = None,
           payload = ConnectionAcceptedP ''C'' ''M''\<rparr>)] \<and>
   pendingConnections (handleConnectionAccepted 10 ''C'' st0) ''C'' = Some pending0 \<and>
   outbox (handleConnectionAccepted 40 ''C'' st0) =
     [(40, error_frame ''INVALID_CONNECTION'' ''You are not the target of this connection'')] \<and>
   outbox (handleConnectionAccepted 10 ''none'' st0) =
     [(10, error_frame ''CONNECTION_NOT_FOUND'' ''Connection request not found or expired'')]"
  using connection_accepted_cases [of 10 "''C''" st0] connection_accepted_cases [of 40 "''C''" st0]
    connection_accepted_cases [of 10 "''none''" st0]
  by (simp add: written_def pending0_def)

section \<open>Forwarding an answer\<close>

text \<open>
  Claim C5. An \<open>rtc_answer\<close> names a pending connection \<open>p\<close> and its \<open>targetMachineId\<close>
  resolves to a channel \<open>t\<close> through \<open>MachineChannels\<close> or else \<open>WebChannels\<close>. Then the answer
  is written to \<open>t\<close> with \<open>targetMachineId\<close> replaced by the sender's \<open>machineId\<close>, or by
  \<open>p.toMachineId\<close> when the sender has none; \<open>p\<close> leaves \<open>Pending\<close>; and when the originator
  was a web client (\<open>fromMachineId\<close> unset, with the transient id it was given) its
  \<open>WebChannels\<close> entry is removed. Nothing else changes.
\<close>

theorem rtc_answer_forward:
  assumes "pendingConnections st (connectionId pl) = Some p"
      and "getClientById (targetMachineId pl) st = Some t"
  shows "handleRTCAnswer c pl st =
           st\<lparr>outbox := outbox st @
                 written st t \<lparr>msg_type = T_rtc_answer, msg_id = None,
                               payload = RTCAnswerP (connectionId pl)
                                 (if truthy (machineId (heap st c))
                                  then or_else (machineId (heap st c)) [] else toMachineId p)
                                 (sdp pl)\<rparr>,
              webClients := (if fromClientId p \<noteq> [] \<and> \<not> truthy (fromMachineId p)
                             then (webClients st)(fromClientId p := None) else webClients st),
              pendingConnections := (pendingConnections st)(connectionId pl := None)\<rparr>"
  using assms
  by (auto simp add: handleRTCAnswer_def send_written Let_def truthy_def or_else_def split: option.splits)

theorem rtc_answer_forward_witness:
  "pendingConnections st0 (connectionId \<lparr>connectionId = ''C'', targetMachineId = ''web-client-1'', sdp = ''v=0''\<rparr>) = Some pending0 \<and>
   getClientById ''web-client-1'' st0 = Some 20 \<and>
   outbox (handleRTCAnswer 10 \<lparr>connectionId = ''C'', targetMachineId = ''web-client-1'', sdp = ''v=0''\<rparr> st0) =
     [(20, \<lparr>msg_type = T_rtc_answer, msg_id = None, payload = RTCAnswerP ''C'' ''M'' ''v=0''\<rparr>)] \<and>
   pendingConnections (handleRTCAnswer 10 \<lparr>connectionId = ''C'', targetMachineId = ''web-client-1'', sdp = ''v=0''\<rparr> st0) ''C'' = None \<and>
   webClients (handleRTCAnswer 10 \<lparr>connectionId = ''C'', targetMachineId = ''web-client-1'', sdp = ''v=0''\<rparr> st0) ''web-client-1'' = None"
proof -
  let ?pl = "\<lparr>connectionId = ''C'', targetMachineId = ''web-client-1'', sdp = ''v=0''\<rparr>"
  have a: "pendingConnections st0 (connectionId ?pl) = Some pending0" by simp
  have b: "getClientById (targetMachineId ?pl) st0 = Some 20" by (simp add: getClientById_def)
  from rtc_answer_forward [OF a b, of 10] a b show ?thesis
    by (simp add: written_def pending0_def truthy_def or_else_def)
qed

section \<open>The stale sweep\<close>

text \<open>
  Claim C7. When the statement of \<open>markStaleOffline\<close> runs (the driver does not reject
  it), it sets \<open>is_online\<close> to false on exactly the rows that were online with \<open>last_seen\<close>
  earlier than \<open>now - T\<close>, leaves every other row and every other column as it was,
  and returns the ids of the rows it changed, in table order.
\<close>

theorem markStaleOffline_exact:
  assumes "markStaleOffline now T d = (Ok ids, d')"
  shows "length (machines d') = length (machines d) \<and>
         (\<forall>i < length (machines d).
            machines d' ! i =
              (if m_is_online (machines d ! i) \<and> m_last_seen (machines d ! i) < now - T
               then (machines d ! i)\<lparr>m_is_online := False\<rparr>
               else machines d ! i)) \<and>
         ids = map m_id (filter (\<lambda>r. m_is_online r \<and> m_last_seen r < now - T) (machines d)) \<and>
         users d' = users d"
proof -
  from assms obtain d0 where s: "update_stale now T d0 = (Ok ids, d')"
    and m: "machines d0 = machines d" and u: "users d0 = users d"
    unfolding markStaleOffline_def by (blast dest: query_Ok)
  from s have ids: "ids = map m_id (filter (stale now T) (machines d0))"
    and d': "d' = d0\<lparr>machines := map (\<lambda>r. if stale now T r then r\<lparr>m_is_online := False\<rparr> else r)
                                      (machines d0)\<rparr>"
    by (auto simp: update_stale_def)
  have st: "stale now T = (\<lambda>r. m_is_online r \<and> m_last_seen r < now - T)"
    by (auto simp: stale_def fun_eq_iff)
  show ?thesis
    using m u by (simp add: ids d' st)
qed

theorem markStaleOffline_exact_witness:
  "markStaleOffline 100000 90000 db_sweep =
     (Ok [''m1''], db_sweep\<lparr>machines := [row ''m1'' ''u1'' ''laptop'' 1000 False,
        row ''m2'' ''u1'' ''desk'' 50000 True, row ''m3'' ''u2'' ''old'' 0 False]\<rparr>) \<and>
   [''m1''] = map m_id (filter (\<lambda>r. m_is_online r \<and> m_last_seen r < 100000 - 90000)
                          (machines db_sweep))"
proof -
  have h: "markStaleOffline 100000 90000 db_sweep =
     (Ok [''m1''], db_sweep\<lparr>machines := [row ''m1'' ''u1'' ''laptop'' 1000 False,
        row ''m2'' ''u1'' ''desk'' 50000 True, row ''m3'' ''u2'' ''old'' 0 False]\<rparr>)"
    by (simp add: markStaleOffline_def query_def update_stale_def stale_def db_sweep_def row_def)
  from markStaleOffline_exact [OF h] h show ?thesis by simp
qed

section \<open>Heartbeats\<close>

text \<open>
  Claim C8 says that every heartbeat frame is answered with a \<open>heartbeat_ack\<close>. When the
  channel carries a \<open>machineId\<close> and the store rejects the refresh of \<open>last_seen\<close>,
  \<open>updateMachineHeartbeat\<close> throws before the acknowledgement is written and the listener's
  \<open>catch\<close> writes \<open>INVALID_MESSAGE\<close>: on channel 10 of the deployment, with a store
  that rejects its next statement, the only frame written is that error, no
  \<open>heartbeat_ack\<close>, and no row changes.
\<close>

theorem heartbeat_rejected_counterexample:
  "truthy (machineId (heap st0_rejecting 10)) \<and>
   outbox (onMessage env0 5000 10 (Some (heartbeat_frame None)) st0_rejecting) =
     [(10, error_frame ''INVALID_MESSAGE'' ''Invalid message format'')] \<and>
   (10, heartbeat_ack) \<notin> set (outbox (onMessage env0 5000 10 (Some (heartbeat_frame None)) st0_rejecting)) \<and>
   machines (db (onMessage env0 5000 10 (Some (heartbeat_frame None)) st0_rejecting)) = machines db0"
proof -
  have u: "updateMachineHeartbeat 5000 ''M'' (db0\<lparr>faults := [True]\<rparr>) = (Threw, db0)"
    by (simp add: updateMachineHeartbeat_def query_def db0_def)
  have h: "onMessage env0 5000 10 (Some (heartbeat_frame None)) st0_rejecting =
             st0\<lparr>heap := heap0(10 := (heap0 10)\<lparr>lastHeartbeat := 5000\<rparr>),
                 outbox := [(10, error_frame ''INVALID_MESSAGE'' ''Invalid message format'')]\<rparr>"
    by (simp add: onMessage_def heartbeat_frame_def st0_rejecting_def Let_def truthy_def or_else_def
          u sendError_def send_def)
  show ?thesis
    by (simp add: h) (simp add: st0_rejecting_def truthy_def heartbeat_ack_def error_frame_def)
qed

text \<open>
  Claim C8, amended. A \<open>heartbeat\<close> frame arrives on channel \<open>c\<close>, in any state and with
  any faults of the store. Then \<open>c.lastHeartbeat\<close> is the instant of handling. When the
  store rejects the refresh (which needs \<open>c\<close> to carry a \<open>machineId\<close>), the frame written
  to \<open>c\<close> is the \<open>INVALID_MESSAGE\<close> error and no row changes; otherwise it is a
  \<open>heartbeat_ack\<close> and the rows are the old ones with \<open>last_seen\<close> refreshed on the row of
  \<open>c.machineId\<close> when \<open>c\<close> carries one. In both cases nothing else changes: no other
  field of \<open>c\<close>, no other channel, no table, no user, and no column of a machine row other
  than \<open>last_seen\<close>. The same holds for any run of heartbeats on \<open>c\<close>.
\<close>

theorem heartbeat_effect:
  "(onMessage E now c (Some (heartbeat_frame mid)) st)\<lparr>db := db st\<rparr> =
     st\<lparr>heap := (heap st)(c := (heap st c)\<lparr>lastHeartbeat := now\<rparr>),
        outbox := outbox st @
          written st c (if refresh_rejected now c st
                        then error_frame ''INVALID_MESSAGE'' ''Invalid message format''
                        else heartbeat_ack)\<rparr> \<and>
   users (db (onMessage E now c (Some (heartbeat_frame mid)) st)) = users (db st) \<and>
   machines (db (onMessage E now c (Some (heartbeat_frame mid)) st)) =
     (if refresh_rejected now c st then machines (db st)
      else refresh (machineId (heap st c)) now (machines (db st))) \<and>
   map (\<lambda>r. r\<lparr>m_last_seen := 0\<rparr>) (machines (db (onMessage E now c (Some (heartbeat_frame mid)) st))) =
     map (\<lambda>r. r\<lparr>m_last_seen := 0\<rparr>) (machines (db st)) \<and>
   heartbeat_changes_only c st (heartbeats E c ts st)"
proof -
  let ?st' = "onMessage E now c (Some (heartbeat_frame mid)) st"
  let ?f = "if refresh_rejected now c st
            then error_frame ''INVALID_MESSAGE'' ''Invalid message format'' else heartbeat_ack"
  from heartbeat_step [of E now c mid st] obtain d1 where
    s: "?st' = st\<lparr>heap := (heap st)(c := (heap st c)\<lparr>lastHeartbeat := now\<rparr>), db := d1,
                   outbox := outbox st @ written st c ?f\<rparr>"
    and u: "users d1 = users (db st)"
    and m: "machines d1 = (if refresh_rejected now c st then machines (db st)
                           else refresh (machineId (heap st c)) now (machines (db st)))"
    by blast
  have c1: "?st'\<lparr>db := db st\<rparr> =
     st\<lparr>heap := (heap st)(c := (heap st c)\<lparr>lastHeartbeat := now\<rparr>),
        outbox := outbox st @ written st c ?f\<rparr>"
    unfolding s by simp
  have c2: "users (db ?st') = users (db st)" unfolding s using u by simp
  have c3: "machines (db ?st') =
     (if refresh_rejected now c st then machines (db st)
      else refresh (machineId (heap st c)) now (machines (db st)))"
    unfolding s using m by simp
  have e: "map (\<lambda>r. r\<lparr>m_last_seen := 0\<rparr>) (refresh (machineId (heap st c)) now (machines (db st))) =
           map (\<lambda>r. r\<lparr>m_last_seen := 0\<rparr>) (machines (db st))"
    by (simp add: refresh_def)
  have c4: "map (\<lambda>r. r\<lparr>m_last_seen := 0\<rparr>) (machines (db ?st')) =
     map (\<lambda>r. r\<lparr>m_last_seen := 0\<rparr>) (machines (db st))"
    unfolding c3 using e by simp
  note c5 = heartbeats_changes_only [of c st E ts]
  from c1 c2 c3 c4 c5 show ?thesis by blast
qed

theorem heartbeat_effect_witness:
  "\<not> refresh_rejected 5000 10 st0 \<and>
   outbox (onMessage env0 5000 10 (Some (heartbeat_frame None)) st0) = [(10, heartbeat_ack)] \<and>
   machines (db (onMessage env0 5000 10 (Some (heartbeat_frame None)) st0)) =
     [row ''M'' ''alice'' ''laptop'' 5000 True, row ''MB'' ''bob'' ''desk'' 0 True] \<and>
   lastHeartbeat (heap (onMessage env0 5000 10 (Some (heartbeat_frame None)) st0) 10) = 5000 \<and>
   refresh_rejected 5000 10 st0_rejecting \<and>
   outbox (onMessage env0 5000 10 (Some (heartbeat_frame None)) st0_rejecting) =
     [(10, error_frame ''INVALID_MESSAGE'' ''Invalid message format'')] \<and>
   machines (db (onMessage env0 5000 10 (Some (heartbeat_frame None)) st0_rejecting)) =
     [row ''M'' ''alice'' ''laptop'' 0 True, row ''MB'' ''bob'' ''desk'' 0 True] \<and>
   pendingConnections (heartbeats env0 10 [5000, 6000] st0_rejecting) =
     pendingConnections st0_rejecting"
proof -
  have a: "\<not> refresh_rejected 5000 10 st0"
    by (simp add: refresh_rejected_def truthy_def or_else_def updateMachineHeartbeat_def query_def
          update_last_seen_def)
  have b: "refresh_rejected 5000 10 st0_rejecting"
    by (simp add: refresh_rejected_def st0_rejecting_def truthy_def or_else_def
          updateMachineHeartbeat_def query_def)
  have r: "refresh (machineId (heap st0 10)) 5000 (machines (db st0)) =
             [row ''M'' ''alice'' ''laptop'' 5000 True, row ''MB'' ''bob'' ''desk'' 0 True]"
          "machines (db st0_rejecting) =
             [row ''M'' ''alice'' ''laptop'' 0 True, row ''MB'' ''bob'' ''desk'' 0 True]"
    by (simp_all add: refresh_def truthy_def row_def st0_rejecting_def)
  have w: "written st0 10 heartbeat_ack = [(10, heartbeat_ack)]"
          "written st0_rejecting 10 (error_frame ''INVALID_MESSAGE'' ''Invalid message format'') =
             [(10, error_frame ''INVALID_MESSAGE'' ''Invalid message format'')]"
    by (simp_all add: written_def st0_rejecting_def)
  let ?x = "onMessage env0 5000 10 (Some (heartbeat_frame None)) st0"
  let ?y = "onMessage env0 5000 10 (Some (heartbeat_frame None)) st0_rejecting"
  note t1 = heartbeat_effect [where E = env0 and now = 5000 and c = 10 and mid = None and st = st0
                              and ts = "[]"]
  note t2 = heartbeat_effect [where E = env0 and now = 5000 and c = 10 and mid = None
                              and st = st0_rejecting and ts = "[5000, 6000]"]
  from t1 a have e1: "?x\<lparr>db := db st0\<rparr> =
      st0\<lparr>heap := (heap st0)(10 := (heap st0 10)\<lparr>lastHeartbeat := 5000\<rparr>),
          outbox := outbox st0 @ written st0 10 heartbeat_ack\<rparr>"
    and m1: "machines (db ?x) = refresh (machineId (heap st0 10)) 5000 (machines (db st0))"
    by simp_all
  from t2 b have e2: "?y\<lparr>db := db st0_rejecting\<rparr> =
      st0_rejecting\<lparr>heap := (heap st0_rejecting)(10 := (heap st0_rejecting 10)\<lparr>lastHeartbeat := 5000\<rparr>),
          outbox := outbox st0_rejecting @
            written st0_rejecting 10 (error_frame ''INVALID_MESSAGE'' ''Invalid message format'')\<rparr>"
    and m2: "machines (db ?y) = machines (db st0_rejecting)"
    and k2: "heartbeat_changes_only 10 st0_rejecting (heartbeats env0 10 [5000, 6000] st0_rejecting)"
    by simp_all
  from arg_cong [OF e1, of outbox] w have o1: "outbox ?x = [(10, heartbeat_ack)]" by simp
  from arg_cong [OF e1, of heap] have h1: "lastHeartbeat (heap ?x 10) = 5000" by simp
  from arg_cong [OF e2, of outbox] w have o2:
    "outbox ?y = [(10, error_frame ''INVALID_MESSAGE'' ''Invalid message format'')]"
    by (simp add: st0_rejecting_def)
  from k2 have "(heartbeats env0 10 [5000, 6000] st0_rejecting)
                  \<lparr>heap := heap st0_rejecting, db := db st0_rejecting, outbox := outbox st0_rejecting\<rparr> =
                st0_rejecting"
    unfolding heartbeat_changes_only_def by blast
  from arg_cong [OF this, of pendingConnections] have p2:
    "pendingConnections (heartbeats env0 10 [5000, 6000] st0_rejecting) =
       pendingConnections st0_rejecting"
    by simp
  from a b o1 m1 h1 o2 m2 p2 r show ?thesis by simp
qed

text \<open>
  With a store that accepts every refresh the state after a run of heartbeats is known
  exactly: the state before it with \<open>lastHeartbeat\<close> and the machine's \<open>last_seen\<close> at the
  last instant and one \<open>heartbeat_ack\<close> per frame.
\<close>

lemma heartbeats_repeated:
  assumes "faults (db st) = []" and "ts \<noteq> []"
  shows "heartbeats E c ts st =
           st\<lparr>heap := (heap st)(c := (heap st c)\<lparr>lastHeartbeat := last ts\<rparr>),
              db := (db st)\<lparr>machines := refresh (machineId (heap st c)) (last ts) (machines (db st))\<rparr>,
              outbox := outbox st @ concat (replicate (length ts) (written st c heartbeat_ack))\<rparr>"
  using assms(2,1)
proof (induction ts arbitrary: st rule: list_nonempty_induct)
  case (single t)
  have e: "last [t] = t" "\<And>x::(nat \<times> WSMessage) list. concat (replicate (length [t]) x) = x"
    by simp_all
  have "heartbeats E c [t] st = onMessage E t c (Some \<lparr>in_id = None, in_request = Heartbeat\<rparr>) st"
    by simp
  also note heartbeat_step_nofault [OF single, of E t c None]
  finally show ?case unfolding e .
next
  case (cons t ts)
  let ?st1 = "onMessage E t c (Some \<lparr>in_id = None, in_request = Heartbeat\<rparr>) st"
  have s1: "?st1 = st\<lparr>heap := (heap st)(c := (heap st c)\<lparr>lastHeartbeat := t\<rparr>),
              db := (db st)\<lparr>machines := refresh (machineId (heap st c)) t (machines (db st))\<rparr>,
              outbox := outbox st @ written st c heartbeat_ack\<rparr>"
    using cons.prems by (rule heartbeat_step_nofault)
  have f1: "faults (db ?st1) = []" using cons.prems by (simp add: s1)
  have w: "written ?st1 c heartbeat_ack = written st c heartbeat_ack"
    by (simp add: s1 written_def)
  have "heartbeats E c (t # ts) st = heartbeats E c ts ?st1" by simp
  also have "\<dots> = ?st1\<lparr>heap := (heap ?st1)(c := (heap ?st1 c)\<lparr>lastHeartbeat := last ts\<rparr>),
              db := (db ?st1)\<lparr>machines := refresh (machineId (heap ?st1 c)) (last ts) (machines (db ?st1))\<rparr>,
              outbox := outbox ?st1 @ concat (replicate (length ts) (written ?st1 c heartbeat_ack))\<rparr>"
    by (rule cons.IH [OF f1])
  also have "\<dots> = st\<lparr>heap := (heap st)(c := (heap st c)\<lparr>lastHeartbeat := last (t # ts)\<rparr>),
              db := (db st)\<lparr>machines := refresh (machineId (heap st c)) (last (t # ts)) (machines (db st))\<rparr>,
              outbox := outbox st @ concat (replicate (length (t # ts)) (written st c heartbeat_ack))\<rparr>"
    unfolding w using cons.hyps by (simp add: s1 refresh_refresh)
  finally show ?case .
qed

section \<open>The ICE-server listing\<close>

text \<open>
  Claim C10. For every configuration, \<open>GET /ice-servers\<close> answers 200 with the list made of
  one \<open>{urls}\<close> entry per configured STUN server, in order, followed by one
  \<open>{urls, username, credential}\<close> entry per configured TURN server whose credential is not
  empty, in order; no entry carries an empty credential. The process state is unchanged.
\<close>

theorem ice_servers_endpoint:
  assumes "req_method req = ''GET''" and "req_url req = ''/ice-servers''"
  shows "status (fst (requestListener cfg E now req st)) = 200 \<and>
         body (fst (requestListener cfg E now req st)) =
           IceServersBody
             (map (\<lambda>url. \<lparr>ice_urls = url, ice_username = None, ice_credential = None\<rparr>)
                  (stunServers cfg) @
              map (\<lambda>t. \<lparr>ice_urls = urls t, ice_username = Some (username t),
                        ice_credential = Some (credential t)\<rparr>)
                  (filter (\<lambda>t. credential t \<noteq> []) (turnServers cfg))) \<and>
         (\<forall>e \<in> set (iceServers cfg). ice_credential e \<noteq> Some []) \<and>
         snd (requestListener cfg E now req st) = st"
  using assms by (auto simp: requestListener_def iceServers_def Let_def)

theorem ice_servers_endpoint_witness:
  "req_method get_ice = ''GET'' \<and> req_url get_ice = ''/ice-servers'' \<and>
   status (fst (requestListener cfg0 env0 0 get_ice st0)) = 200 \<and>
   body (fst (requestListener cfg0 env0 0 get_ice st0)) =
     IceServersBody
       [\<lparr>ice_urls = ''stun:app.rcmedicalspecialist.com:3478'', ice_username = None, ice_credential = None\<rparr>,
        \<lparr>ice_urls = ''stun:stun.l.google.com:19302'', ice_username = None, ice_credential = None\<rparr>,
        \<lparr>ice_urls = ''turn:app.rcmedicalspecialist.com:3478'', ice_username = Some ''rcms'',
         ice_credential = Some ''secret''\<rparr>]"
proof -
  have a: "req_method get_ice = ''GET''" and b: "req_url get_ice = ''/ice-servers''"
    by (simp_all add: get_ice_def)
  from ice_servers_endpoint [OF a b, of cfg0 env0 0 st0] a b show ?thesis
    by (simp add: cfg0_def)
qed

section \<open>Disconnecting a machine channel\<close>

text \<open>
  Claim C9. The channel \<open>c\<close> of a client with \<open>machineId = m\<close> closes. On every path
  of \<open>handleDisconnect\<close>, whatever the store does, the \<open>MachineChannels\<close> entry with key
  \<open>m\<close> is deleted, whichever channel it referred to. When the store accepts the
  \<open>UPDATE\<close>, the row of \<open>m\<close> has \<open>is_online = false\<close> afterwards, also when the broadcast
  that follows throws. When the store rejects the \<open>UPDATE\<close>, the handler throws and the
  rows are as before. Nothing is assumed about the entry: in the witness \<open>m\<close> was
  registered again on the open channel 50 before channel 10 closed, and the close of
  channel 10 removes the entry of channel 50 and marks the machine offline.
\<close>

theorem disconnect_unregisters_by_id:
  assumes "machineId (heap st c) = Some m" and "m \<noteq> []"
  shows "machineClients (snd (handleDisconnect now c st)) = AList.delete m (machineClients st) \<and>
         map_of (machineClients (snd (handleDisconnect now c st))) m = None \<and>
         (fst (updateMachineOnlineStatus now m False (db st)) = Ok () \<longrightarrow>
            machines (db (snd (handleDisconnect now c st))) =
              map (\<lambda>r. if m_id r = m then r\<lparr>m_is_online := False, m_last_seen := now\<rparr> else r)
                  (machines (db st)) \<and>
            (\<forall>r \<in> set (machines (db (snd (handleDisconnect now c st)))).
               m_id r = m \<longrightarrow> \<not> m_is_online r)) \<and>
         (fst (updateMachineOnlineStatus now m False (db st)) = Threw \<longrightarrow>
            fst (handleDisconnect now c st) = Thrown \<and>
            machines (db (snd (handleDisconnect now c st))) = machines (db st))"
proof -
  let ?st1 = "unregisterMachineClient m st"
  let ?f = "\<lambda>r. if m_id r = m then r\<lparr>m_is_online := False, m_last_seen := now\<rparr> else r"
  have mc: "machineClients ?st1 = AList.delete m (machineClients st)"
    by (simp add: unregisterMachineClient_def)
  obtain r d1 where u: "updateMachineOnlineStatus now m False (db st) = (r, d1)"
    by (cases "updateMachineOnlineStatus now m False (db st)")
  note hd = handleDisconnect_attached [OF assms, of now]
  show ?thesis
  proof (cases r)
    case Threw
    with hd u have h: "handleDisconnect now c st = (Thrown, ?st1\<lparr>db := d1\<rparr>)" by simp
    from u Threw have d1: "machines d1 = machines (db st)"
      by (blast dest: updateMachineOnlineStatus_Threw)
    have m1: "machineClients (snd (handleDisconnect now c st)) = AList.delete m (machineClients st)"
      by (simp add: h mc)
    have m2: "map_of (machineClients (snd (handleDisconnect now c st))) m = None"
      by (simp add: m1 delete_conv')
    have m3: "fst (handleDisconnect now c st) = Thrown"
      "machines (db (snd (handleDisconnect now c st))) = machines (db st)"
      by (simp_all add: h d1)
    have m4: "fst (updateMachineOnlineStatus now m False (db st)) \<noteq> Ok ()"
      by (simp add: u Threw)
    from m1 m2 m3 m4 show ?thesis by blast
  next
    case (Ok x)
    obtain oc st' where b: "broadcastMachineStatus m False None (?st1\<lparr>db := d1\<rparr>) = (oc, st')"
      by (cases "broadcastMachineStatus m False None (?st1\<lparr>db := d1\<rparr>)")
    with hd u Ok have h: "handleDisconnect now c st = (oc, st')" by simp
    from broadcast_frame [OF b] obtain fs d' where
      st': "st' = ?st1\<lparr>db := d', outbox := outbox ?st1 @ fs\<rparr>" and d': "machines d' = machines d1"
      by auto
    from u Ok have d1: "machines d1 = map ?f (machines (db st))"
      by (blast dest: updateMachineOnlineStatus_Ok)
    have m1: "machineClients (snd (handleDisconnect now c st)) = AList.delete m (machineClients st)"
      unfolding h st' using mc by simp
    have m2: "map_of (machineClients (snd (handleDisconnect now c st))) m = None"
      by (simp add: m1 delete_conv')
    have m3: "machines (db (snd (handleDisconnect now c st))) = map ?f (machines (db st))"
      unfolding h st' using d' d1 by simp
    have m4: "\<forall>r \<in> set (machines (db (snd (handleDisconnect now c st)))). m_id r = m \<longrightarrow> \<not> m_is_online r"
    proof (intro ballI impI)
      fix r assume r: "r \<in> set (machines (db (snd (handleDisconnect now c st))))" and i: "m_id r = m"
      from r have "r \<in> ?f ` set (machines (db st))"
        unfolding m3 by simp
      then obtain r0 where r0: "r = ?f r0"
        by blast
      show "\<not> m_is_online r"
      proof (cases "m_id r0 = m")
        case True
        with r0 show ?thesis by simp
      next
        case False
        with r0 i show ?thesis by simp
      qed
    qed
    have m5: "fst (updateMachineOnlineStatus now m False (db st)) \<noteq> Threw"
      by (simp add: u Ok)
    from m1 m2 m3 m4 m5 show ?thesis by blast
  qed
qed

theorem disconnect_unregisters_by_id_witness:
  "machineId (heap st_rereg 10) = Some ''M'' \<and> ''M'' \<noteq> [] \<and>
   map_of (machineClients st_rereg) ''M'' = Some 50 \<and> ws_open (heap st_rereg 50) \<and>
   fst (updateMachineOnlineStatus 3000 ''M'' False (db st_rereg)) = Ok () \<and>
   map_of (machineClients (snd (handleDisconnect 3000 10 st_rereg))) ''M'' = None \<and>
   machines (db (snd (handleDisconnect 3000 10 st_rereg))) =
     [row ''M'' ''alice'' ''laptop'' 3000 False, row ''MB'' ''bob'' ''desk'' 0 True] \<and>
   machineId (heap st_rereg_rejecting 10) = Some ''M'' \<and>
   map_of (machineClients st_rereg_rejecting) ''M'' = Some 50 \<and>
   fst (updateMachineOnlineStatus 3000 ''M'' False (db st_rereg_rejecting)) = Threw \<and>
   fst (handleDisconnect 3000 10 st_rereg_rejecting) = Thrown \<and>
   map_of (machineClients (snd (handleDisconnect 3000 10 st_rereg_rejecting))) ''M'' = None \<and>
   machines (db (snd (handleDisconnect 3000 10 st_rereg_rejecting))) =
     [row ''M'' ''alice'' ''laptop'' 2000 True, row ''MB'' ''bob'' ''desk'' 0 True]"
proof -
  have a: "machineId (heap st_rereg 10) = Some ''M''" by (simp add: st_rereg_eq)
  have a': "machineId (heap st_rereg_rejecting 10) = Some ''M''"
    by (simp add: st_rereg_rejecting_def st_rereg_eq)
  have b: "''M'' \<noteq> []" by simp
  have u: "fst (updateMachineOnlineStatus 3000 ''M'' False (db st_rereg)) = Ok ()"
    by (simp add: st_rereg_eq updateMachineOnlineStatus_def query_def update_online_status_def)
  have u': "fst (updateMachineOnlineStatus 3000 ''M'' False (db st_rereg_rejecting)) = Threw"
    by (simp add: st_rereg_rejecting_def updateMachineOnlineStatus_def query_def)
  have e: "map_of (machineClients st_rereg) ''M'' = Some 50 \<and> ws_open (heap st_rereg 50) \<and>
           map_of (machineClients st_rereg_rejecting) ''M'' = Some 50"
    by (simp add: st_rereg_rejecting_def st_rereg_eq)
  have rows: "map (\<lambda>r. if m_id r = ''M'' then r\<lparr>m_is_online := False, m_last_seen := 3000\<rparr> else r)
                (machines (db st_rereg)) =
              [row ''M'' ''alice'' ''laptop'' 3000 False, row ''MB'' ''bob'' ''desk'' 0 True]"
       "machines (db st_rereg_rejecting) =
              [row ''M'' ''alice'' ''laptop'' 2000 True, row ''MB'' ''bob'' ''desk'' 0 True]"
    by (simp_all add: st_rereg_rejecting_def st_rereg_eq row_def)
  from disconnect_unregisters_by_id [OF a b, of 3000]
       disconnect_unregisters_by_id [OF a' b, of 3000] a a' u u' e rows
  show ?thesis by (simp add: delete_conv')
qed

section \<open>Who may send offers and answers\<close>

text \<open>
  Claim C2 says that an \<open>rtc_offer\<close> or \<open>rtc_answer\<close> naming a pending connection is
  forwarded only when its sender is a participant. \<open>handleRTCAnswer\<close> makes no check of
  the sender: in the deployment above Bob's machine on channel 40, which is neither
  the originator of \<open>C\<close> nor its target, sends an answer for \<open>C\<close>; the answer is written to
  the originator's channel 20 and \<open>C\<close> leaves \<open>Pending\<close>.
\<close>

theorem rtc_answer_outsider_counterexample:
  "pendingConnections st0 (connectionId answer_C) = Some pending0 \<and>
   fromClient pending0 \<noteq> 40 \<and>
   machineId (heap st0 40) \<noteq> Some (fromClientId pending0) \<and>
   machineId (heap st0 40) \<noteq> Some (toMachineId pending0) \<and>
   outbox (handleRTCAnswer 40 answer_C st0) =
     [(20, \<lparr>msg_type = T_rtc_answer, msg_id = None, payload = RTCAnswerP ''C'' ''MB'' ''v=0''\<rparr>)] \<and>
   pendingConnections (handleRTCAnswer 40 answer_C st0) ''C'' = None"
proof -
  have a: "pendingConnections st0 (connectionId answer_C) = Some pending0"
    by (simp add: answer_C_def)
  have b: "getClientById (targetMachineId answer_C) st0 = Some 20"
    by (simp add: getClientById_def answer_C_def)
  have c: "connectionId answer_C = ''C''" "sdp answer_C = ''v=0''" by (simp_all add: answer_C_def)
  show ?thesis
    using a by (simp add: handleRTCAnswer_resolved [OF a b] c written_def or_else_def pending0_def)
qed

text \<open>
  Claim C2, amended. Let \<open>p\<close> be the pending connection a frame names. An \<open>rtc_offer\<close>
  from a sender attached to a machine that is not a participant of \<open>p\<close> is not forwarded
  and the sender is sent \<open>INVALID_CONNECTION\<close>; an \<open>rtc_offer\<close> from a participant is
  forwarded to the target machine's channel (or answered \<open>MACHINE_OFFLINE\<close>). An
  \<open>rtc_answer\<close> is forwarded whoever sends it, as soon as its target resolves.
\<close>

theorem rtc_participant_check:
  assumes "pendingConnections st (connectionId pl) = Some p"
  shows "(truthy (machineId (heap st c)) \<and> \<not> spec_participant st c p \<longrightarrow>
            handleRTCOffer c pl st =
              st\<lparr>outbox := outbox st @
                    written st c (error_frame ''INVALID_CONNECTION''
                                    ''You are not part of this connection'')\<rparr>) \<and>
         (spec_participant st c p \<longrightarrow>
            handleRTCOffer c pl st =
              st\<lparr>outbox := outbox st @
                    (case map_of (machineClients st) (targetMachineId pl) of
                       None \<Rightarrow> written st c (error_frame ''MACHINE_OFFLINE''
                                               ''Target machine went offline'')
                     | Some t \<Rightarrow>
                         written st t
                           \<lparr>msg_type = T_rtc_offer, msg_id = None,
                            payload = RTCOfferP (connectionId pl)
                                        (or_else (machineId (heap st c)) (fromClientId p))
                                        (sdp pl)\<rparr>)\<rparr>) \<and>
         (\<forall>t. getClientById (targetMachineId pl) st = Some t \<longrightarrow>
            outbox (handleRTCAnswer c pl st) =
              outbox st @
                written st t \<lparr>msg_type = T_rtc_answer, msg_id = None,
                              payload = RTCAnswerP (connectionId pl)
                                (or_else (machineId (heap st c)) (toMachineId p)) (sdp pl)\<rparr>)"
proof (intro conjI impI allI)
  assume a: "truthy (machineId (heap st c)) \<and> \<not> spec_participant st c p"
  then obtain m where m: "machineId (heap st c) = Some m" "m \<noteq> []"
    by (cases "machineId (heap st c)") (simp_all add: truthy_def)
  from a m have n: "fromClient p \<noteq> c" "m \<noteq> fromClientId p" "m \<noteq> toMachineId p"
    by (simp_all add: spec_participant_def)
  have o: "or_else (Some m) (fromClientId p) = m"
    using m by (simp add: or_else_def)
  show "handleRTCOffer c pl st =
              st\<lparr>outbox := outbox st @
                    written st c (error_frame ''INVALID_CONNECTION''
                                    ''You are not part of this connection'')\<rparr>"
    by (simp add: handleRTCOffer_def assms m n o sendError_written Let_def)
next
  assume "spec_participant st c p"
  then have k: "fromClient p = c \<or> or_else (machineId (heap st c)) (fromClientId p) = fromClientId p \<or>
             machineId (heap st c) = Some (toMachineId p)"
    by (auto simp: spec_participant_def or_else_def)
  show "handleRTCOffer c pl st =
              st\<lparr>outbox := outbox st @
                    (case map_of (machineClients st) (targetMachineId pl) of
                       None \<Rightarrow> written st c (error_frame ''MACHINE_OFFLINE''
                                               ''Target machine went offline'')
                     | Some t \<Rightarrow>
                         written st t
                           \<lparr>msg_type = T_rtc_offer, msg_id = None,
                            payload = RTCOfferP (connectionId pl)
                                        (or_else (machineId (heap st c)) (fromClientId p))
                                        (sdp pl)\<rparr>)\<rparr>"
    using k
  proof (elim disjE)
    assume "fromClient p = c"
    then show ?thesis
      by (simp add: handleRTCOffer_def assms sendError_written send_written Let_def
            split: option.splits)
  next
    assume "or_else (machineId (heap st c)) (fromClientId p) = fromClientId p"
    then show ?thesis
      by (simp add: handleRTCOffer_def assms sendError_written send_written Let_def
            split: option.splits)
  next
    assume "machineId (heap st c) = Some (toMachineId p)"
    then show ?thesis
      by (simp add: handleRTCOffer_def assms sendError_written send_written Let_def
            split: option.splits)
  qed
next
  fix t assume "getClientById (targetMachineId pl) st = Some t"
  from handleRTCAnswer_resolved [OF assms this, of c]
  show "outbox (handleRTCAnswer c pl st) =
              outbox st @
                written st t \<lparr>msg_type = T_rtc_answer, msg_id = None,
                              payload = RTCAnswerP (connectionId pl)
                                (or_else (machineId (heap st c)) (toMachineId p)) (sdp pl)\<rparr>"
    by simp
qed

theorem rtc_participant_check_witness:
  "pendingConnections st0 (connectionId offer_C) = Some pending0 \<and>
   truthy (machineId (heap st0 40)) \<and> \<not> spec_participant st0 40 pending0 \<and>
   handleRTCOffer 40 offer_C st0 =
     st0\<lparr>outbox := [(40, error_frame ''INVALID_CONNECTION'' ''You are not part of this connection'')]\<rparr> \<and>
   spec_participant st0 20 pending0 \<and>
   handleRTCOffer 20 offer_C st0 =
     st0\<lparr>outbox := [(10, \<lparr>msg_type = T_rtc_offer, msg_id = None,
                          payload = RTCOfferP ''C'' ''web-client-1'' ''v=0''\<rparr>)]\<rparr>"
proof -
  have a: "pendingConnections st0 (connectionId offer_C) = Some pending0"
    by (simp add: offer_C_def)
  have b: "truthy (machineId (heap st0 40)) \<and> \<not> spec_participant st0 40 pending0"
    by (simp add: truthy_def spec_participant_def pending0_def)
  have c: "spec_participant st0 20 pending0"
    by (simp add: spec_participant_def pending0_def)
  from rtc_participant_check [OF a, of 40] rtc_participant_check [OF a, of 20] a b c
  show ?thesis
    by (simp add: written_def or_else_def pending0_def offer_C_def)
qed

text \<open>
  The check of \<open>handleRTCOffer\<close> compares \<open>client.machineId || pending.fromClientId\<close> with
  \<open>pending.fromClientId\<close>, which holds for every sender without a machine id: Bob's browser
  on channel 30 has an offer for \<open>C\<close> forwarded to Alice's machine.
\<close>

lemma rtc_offer_machineless_outsider:
  "\<not> spec_participant st0 30 pending0 \<and>
   handleRTCOffer 30 offer_C st0 =
     st0\<lparr>outbox := [(10, \<lparr>msg_type = T_rtc_offer, msg_id = None,
                          payload = RTCOfferP ''C'' ''web-client-1'' ''v=0''\<rparr>)]\<rparr>"
  by (simp add: spec_participant_def pending0_def handleRTCOffer_def offer_C_def or_else_def
        send_def Let_def)

section \<open>The life of a pending connection\<close>

text \<open>
  Claim C3 says that the close of either participant's channel deletes the pending
  connections it takes part in. \<open>handleDisconnect\<close> never touches \<open>Pending\<close>: in the
  deployment above the connection \<open>C\<close> from channel 20 to the machine on channel 10 is
  still pending after the close of channel 20, and after the close of channel 10.
\<close>

theorem pending_survives_disconnect_counterexample:
  "pendingConnections st0 ''C'' = Some pending0 \<and> fromClient pending0 = 20 \<and>
   machineId (heap st0 10) = Some (toMachineId pending0) \<and>
   pendingConnections (onClose 1000 20 st0) ''C'' = Some pending0 \<and>
   pendingConnections (onClose 1000 10 st0) ''C'' = Some pending0"
  by (simp add: pending_onClose pending0_def)

text \<open>
  Claim C3, amended. Let \<open>k\<close> be pending. An event removes \<open>k\<close> only if it is an
  \<open>rtc_answer\<close> naming \<open>k\<close> whose target resolves, a \<open>connection_rejected\<close> naming \<open>k\<close> sent by
  the target machine, or the firing of a due timer of \<open>k\<close>; and each of these three
  events does remove it. The close of a channel leaves \<open>Pending\<close> as it is. The timer of
  a pending connection is armed by the call of \<open>handleConnectToMachine\<close> that creates it,
  for 30000 ms after its \<open>createdAt\<close>.
\<close>

theorem pending_removal_events:
  assumes "pendingConnections st k = Some p"
  shows "(pendingConnections (step cfg E now ev st) k = None \<longrightarrow>
            (\<exists>c mid pl. ev = Message c (Some \<lparr>in_id = mid, in_request = Rtc_answer pl\<rparr>) \<and>
                         connectionId pl = k \<and> getClientById (targetMachineId pl) st \<noteq> None) \<or>
            (\<exists>c mid reason.
                ev = Message c (Some \<lparr>in_id = mid, in_request = Connection_rejected k reason\<rparr>) \<and>
                machineId (heap st c) = Some (toMachineId p)) \<or>
            (ev = TimersDue \<and> (\<exists>t \<in> set (timers st). t_connectionId t = k \<and> t_due t \<le> now))) \<and>
         (\<forall>c mid pl. connectionId pl = k \<and> getClientById (targetMachineId pl) st \<noteq> None \<longrightarrow>
            pendingConnections
              (step cfg E now (Message c (Some \<lparr>in_id = mid, in_request = Rtc_answer pl\<rparr>)) st) k = None) \<and>
         (\<forall>c mid reason. machineId (heap st c) = Some (toMachineId p) \<longrightarrow>
            pendingConnections
              (step cfg E now
                 (Message c (Some \<lparr>in_id = mid, in_request = Connection_rejected k reason\<rparr>)) st) k = None) \<and>
         ((\<exists>t \<in> set (timers st). t_connectionId t = k \<and> t_due t \<le> now) \<longrightarrow>
            pendingConnections (step cfg E now TimersDue st) k = None) \<and>
         (\<forall>c. pendingConnections (step cfg E now (Close c) st) = pendingConnections st) \<and>
         (\<forall>s c tgt oc s' q.
            pendingConnections s k = None \<and> handleConnectToMachine E now c tgt s = (oc, s') \<and>
            pendingConnections s' k = Some q \<longrightarrow>
            createdAt q = now \<and>
            (\<exists>t \<in> set (timers s'). t_connectionId t = k \<and> t_due t = now + 30000))"
proof (intro conjI allI impI)
  assume gone: "pendingConnections (step cfg E now ev st) k = None"
  show "(\<exists>c mid pl. ev = Message c (Some \<lparr>in_id = mid, in_request = Rtc_answer pl\<rparr>) \<and>
                         connectionId pl = k \<and> getClientById (targetMachineId pl) st \<noteq> None) \<or>
            (\<exists>c mid reason.
                ev = Message c (Some \<lparr>in_id = mid, in_request = Connection_rejected k reason\<rparr>) \<and>
                machineId (heap st c) = Some (toMachineId p)) \<or>
            (ev = TimersDue \<and> (\<exists>t \<in> set (timers st). t_connectionId t = k \<and> t_due t \<le> now))"
  proof (cases ev)
    case Connection
    with gone assms show ?thesis by (simp add: step_def pending_onConnection)
  next
    case (Close c)
    with gone assms show ?thesis by (simp add: step_def pending_onClose)
  next
    case HeartbeatCheck
    with gone assms show ?thesis by (simp add: step_def pending_heartbeatCheck)
  next
    case (HttpRequest req)
    with gone assms show ?thesis by (simp add: step_def pending_requestListener)
  next
    case TimersDue
    with gone assms show ?thesis
      by (auto simp: step_def pending_runTimers split: if_splits)
  next
    case (Message c data)
    show ?thesis
    proof (cases data)
      case None
      with Message gone assms show ?thesis by (simp add: step_def onMessage_def)
    next
      case (Some message)
      obtain mid req where message: "message = \<lparr>in_id = mid, in_request = req\<rparr>"
        by (cases message) simp
      obtain oc st1 where h: "handleMessage E now c mid req st = (oc, st1)"
        by (cases "handleMessage E now c mid req st")
      from gone Message Some message h have g1: "pendingConnections st1 k = None"
        by (cases oc) (simp_all add: step_def onMessage_def)
      from h g1 have g2: "pendingConnections (snd (handleMessage E now c mid req st)) k = None"
        by simp
      show ?thesis
      proof (cases "(\<exists>pl. req = Rtc_answer pl) \<or> (\<exists>cid reason. req = Connection_rejected cid reason)")
        case False
        then have "pendingConnections (snd (handleMessage E now c mid req st)) k \<noteq> None"
          using assms by (intro pending_handleMessage_other) auto
        with g2 show ?thesis by simp
      next
        case True
        then show ?thesis
        proof (elim disjE exE)
          fix pl :: RTCPayload assume r: "req = Rtc_answer pl"
          with g2 assms have "connectionId pl = k \<and> getClientById (targetMachineId pl) st \<noteq> None"
            by (auto simp: pending_handleRTCAnswer split: if_splits)
          with Message Some message r show ?thesis by simp
        next
          fix cid reason assume r: "req = Connection_rejected cid reason"
          with g2 assms have "cid = k \<and> machineId (heap st c) = Some (toMachineId p)"
            by (auto simp: pending_handleConnectionRejected split: option.splits if_splits)
          with Message Some message r show ?thesis by simp
        qed
      qed
    qed
  qed
next
  fix c mid and pl :: RTCPayload
  assume "connectionId pl = k \<and> getClientById (targetMachineId pl) st \<noteq> None"
  with assms show "pendingConnections
              (step cfg E now (Message c (Some \<lparr>in_id = mid, in_request = Rtc_answer pl\<rparr>)) st) k = None"
    by (simp add: step_def onMessage_def pending_handleRTCAnswer)
next
  fix c mid reason
  assume "machineId (heap st c) = Some (toMachineId p)"
  with assms show "pendingConnections
              (step cfg E now
                 (Message c (Some \<lparr>in_id = mid, in_request = Connection_rejected k reason\<rparr>)) st) k = None"
    by (simp add: step_def onMessage_def pending_handleConnectionRejected)
next
  assume "\<exists>t \<in> set (timers st). t_connectionId t = k \<and> t_due t \<le> now"
  then show "pendingConnections (step cfg E now TimersDue st) k = None"
    by (auto simp: step_def pending_runTimers)
next
  fix c show "pendingConnections (step cfg E now (Close c) st) = pendingConnections st"
    by (simp add: step_def pending_onClose)
next
  fix s c tgt oc s' q
  assume "pendingConnections s k = None \<and> handleConnectToMachine E now c tgt s = (oc, s') \<and>
          pendingConnections s' k = Some q"
  then show "createdAt q = now"
    and "\<exists>t \<in> set (timers s'). t_connectionId t = k \<and> t_due t = now + 30000"
    using armed_at_creation [of s k E now c tgt oc s' q] by blast+
qed

theorem pending_removal_events_witness:
  "pendingConnections st0 ''C'' = Some pending0 \<and>
   pendingConnections
     (step cfg0 env0 1000 (Message 10 (Some \<lparr>in_id = None, in_request = Rtc_answer answer_C\<rparr>)) st0)
     ''C'' = None \<and>
   pendingConnections
     (step cfg0 env0 1000
        (Message 10 (Some \<lparr>in_id = None, in_request = Connection_rejected ''C'' ''busy''\<rparr>)) st0)
     ''C'' = None \<and>
   pendingConnections (step cfg0 env0 30000 TimersDue st0) ''C'' = None \<and>
   pendingConnections (step cfg0 env0 1000 (Close 20) st0) ''C'' = Some pending0 \<and>
   pendingConnections (snd (handleConnectToMachine env0 1000 50 ''M'' st0)) ''conn-1'' = Some pending1 \<and>
   createdAt pending1 = 1000 \<and>
   (\<exists>t \<in> set (timers (snd (handleConnectToMachine env0 1000 50 ''M'' st0))).
      t_connectionId t = ''conn-1'' \<and> t_due t = 1000 + 30000)"
proof -
  have e: "pendingConnections st0 ''conn-1'' = None" by simp
  have f: "pendingConnections (snd (handleConnectToMachine env0 1000 50 ''M'' st0)) ''conn-1'' = Some pending1"
    by (simp add: connect_from_channel_50)
  have a: "pendingConnections st0 ''C'' = Some pending0" by simp
  have b: "connectionId answer_C = ''C'' \<and> getClientById (targetMachineId answer_C) st0 \<noteq> None"
    by (simp add: answer_C_def getClientById_def)
  have c: "machineId (heap st0 10) = Some (toMachineId pending0)"
    by (simp add: pending0_def)
  have d: "\<exists>t \<in> set (timers st0). t_connectionId t = ''C'' \<and> t_due t \<le> 30000"
    by simp
  have g: "createdAt pending1 = 1000 \<and>
   (\<exists>t \<in> set (timers (snd (handleConnectToMachine env0 1000 50 ''M'' st0))).
      t_connectionId t = ''conn-1'' \<and> t_due t = 1000 + 30000)"
    proof -
    have "pendingConnections st0 ''conn-1'' = None \<and>
          handleConnectToMachine env0 1000 50 ''M'' st0 =
            (Returned, snd (handleConnectToMachine env0 1000 50 ''M'' st0)) \<and>
          pendingConnections (snd (handleConnectToMachine env0 1000 50 ''M'' st0)) ''conn-1'' =
            Some pending1"
      using e f by (simp add: connect_from_channel_50)
    with pending_removal_events [OF f, of cfg0 env0 1000 TimersDue, THEN conjunct2,
        THEN conjunct2, THEN conjunct2, THEN conjunct2, THEN conjunct2, rule_format,
        of st0 50 "''M''" Returned "snd (handleConnectToMachine env0 1000 50 ''M'' st0)" pending1]
    show ?thesis by simp
  qed
  from pending_removal_events [OF a, of cfg0 env0 1000 "Close 20"]
       pending_removal_events [OF a, of cfg0 env0 30000 TimersDue] a b c d f g
  show ?thesis by simp
qed

section \<open>One response per request\<close>

text \<open>
  Claim C4. A frame carrying the correlation id \<open>X\<close> arrives on channel \<open>c\<close>. Whatever
  the state, the environment and the faults of the store, the frames its handling
  writes (including the listener's \<open>INVALID_MESSAGE\<close> when the handler throws) contain at
  most one frame to \<open>c\<close> with id \<open>X\<close>, and never both such a frame and an \<open>error\<close> frame to
  \<open>c\<close>.
\<close>

theorem one_response_per_request:
  assumes "in_id message = Some X"
  shows "\<exists>fs. outbox (onMessage E now c (Some message) st) = outbox st @ fs \<and>
              length (filter (\<lambda>(w, f). w = c \<and> msg_id f = Some X) fs) \<le> 1 \<and>
              \<not> ((\<exists>(w, f) \<in> set fs. w = c \<and> msg_id f = Some X) \<and>
                 (\<exists>(w, f) \<in> set fs. w = c \<and> msg_type f = T_error))"
proof -
  from emits_onMessage [of st E now c "Some message"] obtain fs where
    "outbox (onMessage E now c (Some message) st) = outbox st @ fs" "reply_shape fs"
    by (auto simp: appended_def)
  with reply_shape_one_response [of fs c X] show ?thesis by blast
qed

theorem one_response_per_request_witness:
  "in_id list_request = Some ''req-7'' \<and>
   outbox (onMessage env0 1000 20 (Some list_request) st0) =
     [(20, \<lparr>msg_type = T_machines_list, msg_id = Some ''req-7'',
            payload = MachinesListP [machine_info (row ''M'' ''alice'' ''laptop'' 0 True)]\<rparr>)] \<and>
   length (filter (\<lambda>(w, f). w = 20 \<and> msg_id f = Some ''req-7'')
             (outbox (onMessage env0 1000 20 (Some list_request) st0))) \<le> 1 \<and>
   \<not> ((\<exists>(w, f) \<in> set (outbox (onMessage env0 1000 20 (Some list_request) st0)).
          w = 20 \<and> msg_id f = Some ''req-7'') \<and>
      (\<exists>(w, f) \<in> set (outbox (onMessage env0 1000 20 (Some list_request) st0)).
          w = 20 \<and> msg_type f = T_error))"
proof -
  have a: "in_id list_request = Some ''req-7''" by (simp add: list_request_def)
  from one_response_per_request [OF a, of env0 1000 20 st0]
  have "length (filter (\<lambda>(w, f). w = 20 \<and> msg_id f = Some ''req-7'')
             (outbox (onMessage env0 1000 20 (Some list_request) st0))) \<le> 1 \<and>
   \<not> ((\<exists>(w, f) \<in> set (outbox (onMessage env0 1000 20 (Some list_request) st0)).
          w = 20 \<and> msg_id f = Some ''req-7'') \<and>
      (\<exists>(w, f) \<in> set (outbox (onMessage env0 1000 20 (Some list_request) st0)).
          w = 20 \<and> msg_type f = T_error))"
    by simp
  with a show ?thesis by (simp add: list_reply)
qed

end
